theory Spec2Isabelle
  imports Complex_Main "HOL-Library.AList"
begin

section \<open>Values of the loosely typed cue trees\<close>

text \<open>
  The reconciler works on \<^verbatim>\<open>map[string]any\<close> trees: the source description, the cached
  snapshot and the reply of the live query. A value of Go's \<^verbatim>\<open>any\<close> is modelled by
  \<open>json\<close>. A \<^verbatim>\<open>float64\<close> is a finite rational, negative zero, an infinity or NaN
  (every float64 is one of these; the converse is not needed by anything below).
  \<^verbatim>\<open>int\<close> and \<^verbatim>\<open>int64\<close> are both printed with \<^verbatim>\<open>%d\<close> and never computed with, so
  one constructor stands for both.
\<close>

datatype float64 = FNum rat | FNegZero | FInf bool | FNaN

datatype json =
    JNull
  | JString string
  | JFloat float64
  | JInt int
  | JBool bool
  | JArray "json list"
  | JObject "(string \<times> json) list"

text \<open>
  A Go map is an association list with distinct keys; a nil map reads like the empty map
  and is the empty list. \<open>map_of m k\<close> is the two-valued lookup \<^verbatim>\<open>v, ok := m[k]\<close>,
  \<open>AList.update k v m\<close> is \<^verbatim>\<open>m[k] = v\<close>, \<open>length m\<close> is \<^verbatim>\<open>len(m)\<close>. The order of
  the list stands for the order in which one run of \<^verbatim>\<open>range\<close> visits the map.
\<close>

type_synonym 'v gomap = "(string \<times> 'v) list"
type_synonym cue = "json gomap"

text \<open>
  What is fixed by Go's library and not by this repository is a parameter of everything
  that uses it: the two formatting verbs \<^verbatim>\<open>%g\<close> on a float64 and \<^verbatim>\<open>%v\<close> on a value that
  is neither a string nor a number, and \<^verbatim>\<open>strings.ToLower\<close> and \<^verbatim>\<open>strings.EqualFold\<close>,
  which read the bytes of a string as Unicode characters and follow the case tables of
  the library. Nothing below assumes anything about the four.
\<close>

record golib =
  sprintf_g :: "float64 \<Rightarrow> string"
  sprintf_v :: "json \<Rightarrow> string"
  ToLower :: "string \<Rightarrow> string"
  EqualFold :: "string \<Rightarrow> string \<Rightarrow> bool"

subsection \<open>Strings\<close>

definition digit_char :: "nat \<Rightarrow> char" where
  "digit_char n = ''0123456789'' ! n"

text \<open>\<^verbatim>\<open>%d\<close> on a non-negative integer.\<close>

fun show_nat :: "nat \<Rightarrow> string" where
  "show_nat n = (if n < 10 then [digit_char n] else show_nat (n div 10) @ [digit_char (n mod 10)])"

declare show_nat.simps [simp del]

text \<open>\<^verbatim>\<open>%d\<close> on an integer.\<close>

definition show_int :: "int \<Rightarrow> string" where
  "show_int i = (if i < 0 then CHR ''-'' # show_nat (nat (- i)) else show_nat (nat i))"

text \<open>\<^verbatim>\<open>strings.Contains(s, sub)\<close>.\<close>

fun Contains :: "string \<Rightarrow> string \<Rightarrow> bool" where
  "Contains [] sub = (sub = [])"
| "Contains (c # cs) sub = (take (length sub) (c # cs) = sub \<or> Contains cs sub)"

text \<open>
  \<^verbatim>\<open>filepath.Base\<close> with the separator \<^verbatim>\<open>/\<close>: the empty path gives a dot, trailing
  separators are dropped, the last element is returned, and a path of separators only
  gives one separator.
\<close>

definition Base :: "string \<Rightarrow> string" where
  "Base path =
     (if path = [] then ''.''
      else let stripped = rev (dropWhile (\<lambda>c. c = CHR ''/'') (rev path))
           in if stripped = [] then ''/''
              else rev (takeWhile (\<lambda>c. c \<noteq> CHR ''/'') (rev stripped)))"

text \<open>The type assertion \<^verbatim>\<open>v, _ := m[k].(string)\<close>: the empty string unless a string is stored.\<close>

definition str_field :: "cue \<Rightarrow> string \<Rightarrow> string" where
  "str_field m k = (case map_of m k of Some (JString s) \<Rightarrow> s | _ \<Rightarrow> [])"

section \<open>Identity keys and the index of a tree\<close>

text \<open>
  The test \<^verbatim>\<open>v == float64(int64(v)) && v >= 0 && v <= 999\<close>. Outside the range of
  int64 the conversion is not specified by Go, but there one of the two bounds fails, so
  the conjunction is false whatever the conversion gives. NaN fails every comparison;
  negative zero passes all three.
\<close>

fun whole_0_999 :: "float64 \<Rightarrow> bool" where
  "whole_0_999 (FNum r) = (r = of_int \<lfloor>r\<rfloor> \<and> 0 \<le> r \<and> r \<le> 999)"
| "whole_0_999 FNegZero = True"
| "whole_0_999 (FInf _) = False"
| "whole_0_999 FNaN = False"

text \<open>
  \<^verbatim>\<open>fmt.Sprintf("%.1f", v)\<close> where the code calls it, on a whole number of the range
  above: the integer digits, a point and one zero, behind the sign of a negative zero.
\<close>

fun sprintf_1f :: "float64 \<Rightarrow> string" where
  "sprintf_1f (FNum r) = show_nat (nat \<lfloor>r\<rfloor>) @ ''.0''"
| "sprintf_1f FNegZero = ''-0.0''"
| "sprintf_1f (FInf neg) = (if neg then ''-Inf'' else ''+Inf'')"
| "sprintf_1f FNaN = ''NaN''"

text \<open>
  The number of a cue as a string: the switch on the dynamic type of \<^verbatim>\<open>cue["number"]\<close>
  that \<^verbatim>\<open>indexCuesRecursively\<close>, \<^verbatim>\<open>extractCueIdentifier\<close> and the mutation pass each
  spell out, word for word the same.
\<close>

definition cueNumberOf :: "golib \<Rightarrow> cue \<Rightarrow> string" where
  "cueNumberOf L cue =
     (case map_of cue ''number'' of
        None \<Rightarrow> []
      | Some JNull \<Rightarrow> []
      | Some (JString v) \<Rightarrow> v
      | Some (JFloat v) \<Rightarrow> (if whole_0_999 v then sprintf_1f v else sprintf_g L v)
      | Some (JInt v) \<Rightarrow> show_int v
      | Some v \<Rightarrow> sprintf_v L v)"

text \<open>The parent prefix: a number with a dot in it is taken as absolute.\<close>

definition fullNumberOf :: "string \<Rightarrow> string \<Rightarrow> string" where
  "fullNumberOf parentNumber cueNumber =
     (if parentNumber \<noteq> [] \<and> cueNumber \<noteq> [] then
        (if Contains cueNumber ''.'' then cueNumber else parentNumber @ ''.'' @ cueNumber)
      else cueNumber)"

text \<open>The positional key \<^verbatim>\<open>"%s@%d[%s:%s]"\<close>, or \<^verbatim>\<open>"@%d[%s:%s]"\<close> at the root.\<close>

definition positionKey :: "string \<Rightarrow> int \<Rightarrow> string \<Rightarrow> string \<Rightarrow> string" where
  "positionKey parentNumber i normalizedType cueName =
     (if parentNumber \<noteq> [] then
        parentNumber @ ''@'' @ show_int i @ ''['' @ normalizedType @ '':'' @ cueName @ '']''
      else ''@'' @ show_int i @ ''['' @ normalizedType @ '':'' @ cueName @ '']'')"

lemma size_map_of_json:
  "map_of m k = Some v \<Longrightarrow> size v < Suc (size_list (size_prod (\<lambda>_. 0) size) m)"
  by (induction m) (auto split: if_splits)

text \<open>
  The body of the loop of \<^verbatim>\<open>indexCuesRecursively\<close> up to its recursive call: the cue
  is stored under its full number, or, without a number, under its positional key when
  its type or its name is not empty.
\<close>

definition indexEntry :: "golib \<Rightarrow> string \<Rightarrow> nat \<Rightarrow> cue \<Rightarrow> cue gomap \<Rightarrow> cue gomap" where
  "indexEntry L parentNumber i cue cueIndex =
     (let cueNumber = cueNumberOf L cue;
          fullNumber = fullNumberOf parentNumber cueNumber
      in if fullNumber \<noteq> [] then AList.update fullNumber cue cueIndex
         else
           (let cueName = str_field cue ''name'';
                cueType = str_field cue ''type'';
                normalizedType = ToLower L cueType;
                key = positionKey parentNumber (int i) normalizedType cueName
            in if cueType \<noteq> [] \<or> cueName \<noteq> [] then AList.update key cue cueIndex
               else cueIndex))"

text \<open>
  \<^verbatim>\<open>indexCuesRecursively\<close>: the loop over \<^verbatim>\<open>cuesData\<close> with its running index \<open>i\<close>,
  the shared \<^verbatim>\<open>cueIndex\<close> passed through. An element that is not a map is skipped and
  still counts in the index of its successors. The sub-cues are indexed under the full
  number of their parent, which is empty for a parent without a number.
\<close>

function indexCuesRecursively ::
  "golib \<Rightarrow> json list \<Rightarrow> string \<Rightarrow> nat \<Rightarrow> cue gomap \<Rightarrow> cue gomap" where
  "indexCuesRecursively L [] parentNumber i = (\<lambda>cueIndex. cueIndex)"
| "indexCuesRecursively L (cueData # rest) parentNumber i =
     (\<lambda>cueIndex.
        indexCuesRecursively L rest parentNumber (Suc i)
          (case cueData of
             JObject cue \<Rightarrow>
               (case map_of cue ''cues'' of
                  Some (JArray subCues) \<Rightarrow>
                    indexCuesRecursively L subCues
                      (fullNumberOf parentNumber (cueNumberOf L cue)) 0
                      (indexEntry L parentNumber i cue cueIndex)
                | _ \<Rightarrow> indexEntry L parentNumber i cue cueIndex)
           | _ \<Rightarrow> cueIndex))"
  by pat_completeness auto
termination
  by (relation "measure (\<lambda>(L, cs, p, i). size_list size cs)")
     (auto dest: size_map_of_json)

text \<open>The cues of one cue list of a reply: its \<^verbatim>\<open>cues\<close> array when it is a map that has one.\<close>

definition cuesOfCueList :: "json \<Rightarrow> json list" where
  "cuesOfCueList cueListData =
     (case cueListData of
        JObject cueList \<Rightarrow>
          (case map_of cueList ''cues'' of Some (JArray listCues) \<Rightarrow> listCues | _ \<Rightarrow> [])
      | _ \<Rightarrow> [])"

text \<open>
  \<^verbatim>\<open>indexCuesFromWorkspace\<close>: the four shapes of a tree, tried in the order of the source,
  then the recursive index from the root.
\<close>

definition indexCuesFromWorkspace :: "golib \<Rightarrow> cue \<Rightarrow> cue gomap" where
  "indexCuesFromWorkspace L workspace =
     (let cuesData =
        (case map_of workspace ''cues'' of
           Some (JArray cues) \<Rightarrow> cues
         | _ \<Rightarrow>
           (case map_of workspace ''workspace'' of
              Some (JObject workspaceData) \<Rightarrow>
                (case map_of workspaceData ''cues'' of Some (JArray cues) \<Rightarrow> cues | _ \<Rightarrow> [])
            | _ \<Rightarrow>
              (case map_of workspace ''data'' of
                 Some (JObject data) \<Rightarrow>
                   (case map_of data ''cueLists'' of
                      Some (JArray cueLists) \<Rightarrow> concat (map cuesOfCueList cueLists)
                    | _ \<Rightarrow> [])
                   @ (case map_of data ''cues'' of Some (JArray directCues) \<Rightarrow> directCues | _ \<Rightarrow> [])
               | Some (JArray cueLists) \<Rightarrow> concat (map cuesOfCueList cueLists)
               | _ \<Rightarrow> [])))
      in indexCuesRecursively L cuesData [] 0 [])"

text \<open>
  Where a cue sits in a tree, as the index walks it. \<open>cue_at L cuesData parentNumber cue p j\<close>
  says: when \<^verbatim>\<open>indexCuesRecursively\<close> is called on \<open>cuesData\<close> with \<open>parentNumber\<close>, it
  comes to \<open>cue\<close> as element \<open>j\<close> of an array that it walks with the parent number
  \<open>p\<close>. The array is \<open>cuesData\<close> itself, or the \<^verbatim>\<open>cues\<close> of a cue that it comes to.
\<close>

inductive cue_at :: "golib \<Rightarrow> json list \<Rightarrow> string \<Rightarrow> cue \<Rightarrow> string \<Rightarrow> nat \<Rightarrow> bool"
  for L :: golib where
  here: "j < length cuesData \<Longrightarrow> cuesData ! j = JObject cue \<Longrightarrow>
         cue_at L cuesData parentNumber cue parentNumber j"
| below: "i < length cuesData \<Longrightarrow> cuesData ! i = JObject parent \<Longrightarrow>
          map_of parent ''cues'' = Some (JArray subCues) \<Longrightarrow>
          cue_at L subCues (fullNumberOf parentNumber (cueNumberOf L parent)) cue p j \<Longrightarrow>
          cue_at L cuesData parentNumber cue p j"

text \<open>
  The key under which \<open>indexEntry\<close> stores a cue, and \<open>None\<close> when it stores nothing:
  the cue has no number, no type and no name.
\<close>

definition identityKey :: "golib \<Rightarrow> string \<Rightarrow> nat \<Rightarrow> cue \<Rightarrow> string option" where
  "identityKey L parentNumber i cue =
     (let fullNumber = fullNumberOf parentNumber (cueNumberOf L cue);
          cueName = str_field cue ''name'';
          cueType = str_field cue ''type''
      in if fullNumber \<noteq> [] then Some fullNumber
         else if cueType \<noteq> [] \<or> cueName \<noteq> []
              then Some (positionKey parentNumber (int i) (ToLower L cueType) cueName)
         else None)"

section \<open>The field-level comparator\<close>

text \<open>\<^verbatim>\<open>m[k]\<close> as a single value: nil for a key that is not there.\<close>

definition at_key :: "cue \<Rightarrow> string \<Rightarrow> json" where
  "at_key m k = (case map_of m k of Some v \<Rightarrow> v | None \<Rightarrow> JNull)"

definition normalizeProperty :: "golib \<Rightarrow> json \<Rightarrow> string" where
  "normalizeProperty L v =
     (case v of
        JNull \<Rightarrow> []
      | JString s \<Rightarrow> s
      | JFloat f \<Rightarrow> sprintf_g L f
      | JInt i \<Rightarrow> show_int i
      | JBool b \<Rightarrow> (if b then ''true'' else ''false'')
      | _ \<Rightarrow> sprintf_v L v)"

definition comparePropertyValues :: "golib \<Rightarrow> string \<Rightarrow> string \<Rightarrow> string \<Rightarrow> bool" where
  "comparePropertyValues L property val1 val2 =
     (if val1 = val2 then True
      else if property = ''armed'' \<or> property = ''flagged'' then True
      else if property = ''duration'' \<and>
              ((val1 = ''0'' \<and> val2 = []) \<or> (val1 = [] \<and> val2 = ''0'')) then True
      else if property = ''type'' \<and> EqualFold L val1 val2 then True
      else if property = ''fileTarget'' then
             (if val1 \<noteq> [] \<and> val2 \<noteq> [] then Base val1 = Base val2 else False)
      else if property = ''colorName'' \<and>
              ((val1 = [] \<and> val2 = ''none'') \<or> (val1 = ''none'' \<and> val2 = [])) then True
      else if property = ''cueTargetNumber'' then
             (if val1 = [] \<and> val2 = [] then True else val1 = val2)
      else False)"

definition allProperties :: "string list" where
  "allProperties =
     [''name'', ''type'', ''fileTarget'', ''duration'', ''cueTargetNumber'',
      ''armed'', ''colorName'', ''flagged'', ''notes'']"

text \<open>The report \<^verbatim>\<open>fmt.Sprintf("'%s' -> '%s'", val1, val2)\<close>.\<close>

definition diffText :: "string \<Rightarrow> string \<Rightarrow> string" where
  "diffText val1 val2 =
     [CHR 0x27] @ val1 @ [CHR 0x27] @ '' -> '' @ [CHR 0x27] @ val2 @ [CHR 0x27]"

text \<open>\<^verbatim>\<open>q.normalizeProperty(cue[prop])\<close>, the value of a property as the comparator sees it.\<close>

definition normalized :: "golib \<Rightarrow> cue \<Rightarrow> string \<Rightarrow> string" where
  "normalized L cue prop = normalizeProperty L (at_key cue prop)"

text \<open>
  The tests of one round of the loop of \<^verbatim>\<open>compareCuePropertiesDetailed\<close>: whether the
  round reports the property. Two empty values are passed over, the file target and the
  cue target number are passed over unless both cues have the key, and the rest is left
  to \<^verbatim>\<open>comparePropertyValues\<close>.
\<close>

definition propertyDiffers :: "golib \<Rightarrow> cue \<Rightarrow> cue \<Rightarrow> string \<Rightarrow> bool" where
  "propertyDiffers L cue1 cue2 prop =
     (let val1 = normalized L cue1 prop;
          val2 = normalized L cue2 prop
      in if val1 = [] \<and> val2 = [] then False
         else if (prop = ''fileTarget'' \<or> prop = ''cueTargetNumber'') \<and>
                 (map_of cue1 prop = None \<or> map_of cue2 prop = None) then False
         else \<not> comparePropertyValues L prop val1 val2)"

text \<open>One round of the loop: the report is stored under the name of the property.\<close>

definition compareProperty :: "golib \<Rightarrow> cue \<Rightarrow> cue \<Rightarrow> string \<Rightarrow> string gomap \<Rightarrow> string gomap" where
  "compareProperty L cue1 cue2 prop differences =
     (if propertyDiffers L cue1 cue2 prop
      then AList.update prop (diffText (normalized L cue1 prop) (normalized L cue2 prop)) differences
      else differences)"

definition compareCuePropertiesDetailed :: "golib \<Rightarrow> cue \<Rightarrow> cue \<Rightarrow> string gomap" where
  "compareCuePropertiesDetailed L cue1 cue2 = fold (compareProperty L cue1 cue2) allProperties []"

definition compareCueProperties :: "golib \<Rightarrow> cue \<Rightarrow> cue \<Rightarrow> bool" where
  "compareCueProperties L cue1 cue2 \<longleftrightarrow> length (compareCuePropertiesDetailed L cue1 cue2) = 0"

definition compareCacheWithCurrentState :: "golib \<Rightarrow> cue \<Rightarrow> cue \<Rightarrow> bool" where
  "compareCacheWithCurrentState L cachedWorkspace currentWorkspace =
     (let cachedCues = indexCuesFromWorkspace L cachedWorkspace;
          currentCues = indexCuesFromWorkspace L currentWorkspace
      in if length cachedCues \<noteq> length currentCues then False
         else list_all
                (\<lambda>(cueNumber, cachedCue).
                   case map_of currentCues cueNumber of
                     None \<Rightarrow> False
                   | Some currentCue \<Rightarrow> compareCueProperties L cachedCue currentCue)
                cachedCues)"

section \<open>Results of the three-way comparison\<close>

text \<open>
  A pointer held in a map or a slice (\<^verbatim>\<open>*CueChangeResult\<close>, \<^verbatim>\<open>*FieldConflict\<close>, a child
  \<^verbatim>\<open>*ScopeComparison\<close>) is modelled by the record it points to: \<^verbatim>\<open>PerformThreeWayComparison\<close>
  allocates one result for each key and shares none. A pointer that the code leaves nil to
  say that there is nothing (\<^verbatim>\<open>WorkspaceScope\<close>, \<^verbatim>\<open>MergedResult\<close>, \<^verbatim>\<open>ScopeData\<close>) is an
  option.
\<close>

record FieldConflict =
  FieldName :: string
  SourceValue :: json
  CacheValue :: json
  QLabValue :: json
  ChosenValue :: json
  ChosenSource :: string

datatype ScopeComparison = ScopeComparison
  (Scope: string) (Identifier: string) (HasChanges: bool) (ChangeType: string)
  (FieldChanges: "FieldConflict gomap") (ChildScopes: "ScopeComparison list")
  (ConflictExists: bool) (Resolved: bool)

datatype MergedScope = MergedScope
  (Scope: string) (Identifier: string) (MergedData: cue)
  (ChildScopes: "MergedScope list") (SourceFields: "string gomap") (AppliedAt: string)

record CueChangeResult =
  HasChanged :: bool
  Reason :: string
  ExistingID :: string
  Action :: string
  ModifiedFields :: "string gomap"
  CueID :: string
  FieldConflicts :: "FieldConflict gomap"
  ScopeData :: "ScopeComparison option"

record ThreeWayComparison =
  CueResults :: "CueChangeResult gomap"
  HasCache :: bool
  HasQLabData :: bool
  CacheMatchesQLab :: bool
  QLabChosenCues :: "bool gomap"
  QLabChosenFields :: "(bool gomap) gomap"
  CurrentQLabData :: cue
  WorkspaceScope :: "ScopeComparison option"
  MergedResult :: "MergedScope option"

record CueConflict =
  CueNumber :: string
  CueIdentifier :: string
  ConflictType :: string
  Scope :: string
  SourceData :: cue
  CacheData :: cue
  QLabData :: cue
  Properties :: "string list"
  FieldConflicts :: "FieldConflict gomap"
  Description :: string
  Resolved :: bool

definition ConflictThreeWayDivergence :: string where
  "ConflictThreeWayDivergence = ''three_way_divergence''"

definition ConflictCacheStale :: string where
  "ConflictCacheStale = ''cache_stale''"

definition ConflictSourceModified :: string where
  "ConflictSourceModified = ''source_modified''"

definition ScopeCue :: string where
  "ScopeCue = ''cue''"

section \<open>The three-way comparison\<close>

text \<open>
  What \<^verbatim>\<open>PerformThreeWayComparison\<close> reads from outside: the newest cache file
  (\<^verbatim>\<open>findMostRecentCacheFile\<close> then \<^verbatim>\<open>loadCacheFileData\<close>, an error when either fails),
  the reply of the full query and of the lightweight query, the connection flag as it is
  after the full query, and the scope-based comparison \<^verbatim>\<open>PerformScopeBasedComparison\<close>,
  which is taken as a parameter.
\<close>

record reconcile_env =
  loadCache :: "string + cue"
  queryCurrentWorkspaceState :: "string + cue"
  queryWorkspaceStateLightweight :: "string + cue"
  wasConnected :: bool
  PerformScopeBasedComparison :: "cue \<Rightarrow> cue \<Rightarrow> cue \<Rightarrow> string + ScopeComparison"

text \<open>Step 1: \<^verbatim>\<open>HasCache\<close> and \<^verbatim>\<open>cachedWorkspace\<close>, nil when no cache was loaded.\<close>

definition loadCachedWorkspace :: "reconcile_env \<Rightarrow> bool \<times> cue" where
  "loadCachedWorkspace env =
     (case loadCache env of Inl err \<Rightarrow> (False, []) | Inr cachedWorkspace \<Rightarrow> (True, cachedWorkspace))"

text \<open>
  Step 2: \<^verbatim>\<open>HasQLabData\<close> and \<^verbatim>\<open>currentWorkspace\<close>. A failed full query is followed by
  the lightweight query when the workspace was connected and the error mentions a timeout.
\<close>

definition queryCurrent :: "reconcile_env \<Rightarrow> bool \<times> cue" where
  "queryCurrent env =
     (case queryCurrentWorkspaceState env of
        Inr currentWorkspace \<Rightarrow> (True, currentWorkspace)
      | Inl err \<Rightarrow>
          (if wasConnected env then
             (if Contains err ''timeout'' then
                (case queryWorkspaceStateLightweight env of
                   Inr currentWorkspace \<Rightarrow> (True, currentWorkspace)
                 | Inl err2 \<Rightarrow> (False, []))
              else (False, []))
           else (False, [])))"

text \<open>The uniqueID of the remote cue when it is a string.\<close>

definition withExistingID :: "cue \<Rightarrow> CueChangeResult \<Rightarrow> CueChangeResult" where
  "withExistingID currentCue result =
     (case map_of currentCue ''uniqueID'' of
        Some (JString uid) \<Rightarrow> result\<lparr>ExistingID := uid\<rparr>
      | _ \<Rightarrow> result)"

definition withCueID :: "cue \<Rightarrow> CueChangeResult \<Rightarrow> CueChangeResult" where
  "withCueID currentCue result =
     (case map_of currentCue ''uniqueID'' of
        Some (JString cueID) \<Rightarrow> result\<lparr>CueID := cueID, ExistingID := cueID\<rparr>
      | _ \<Rightarrow> result)"

text \<open>The two loops that merge both difference sets under their prefixes.\<close>

definition mergeDiffs :: "string gomap \<Rightarrow> string gomap \<Rightarrow> string gomap" where
  "mergeDiffs sourceCacheDiffs cacheCurrentDiffs =
     fold (\<lambda>(field, diff). AList.update (''cache_vs_current_'' @ field) diff) cacheCurrentDiffs
       (fold (\<lambda>(field, diff). AList.update (''source_vs_cache_'' @ field) diff) sourceCacheDiffs [])"

text \<open>
  The body of the loop \<^verbatim>\<open>for cueNumber, sourceCue := range sourceCues\<close>: the verdict for
  one key of the source index.
\<close>

definition compareSourceCue ::
  "golib \<Rightarrow> cue gomap \<Rightarrow> cue gomap \<Rightarrow> string \<Rightarrow> cue \<Rightarrow> CueChangeResult" where
  "compareSourceCue L cachedCues currentCues cueNumber sourceCue =
     (let result = \<lparr>HasChanged = True, Reason = ''new cue'', ExistingID = [], Action = ''create'',
                    ModifiedFields = [], CueID = [], FieldConflicts = [], ScopeData = None\<rparr>
      in case map_of currentCues cueNumber of
           Some currentCue \<Rightarrow>
             (let result = withExistingID currentCue result
              in case map_of cachedCues cueNumber of
                   Some cachedCue \<Rightarrow>
                     (let sourceCacheDiffs = compareCuePropertiesDetailed L sourceCue cachedCue;
                          cacheCurrentDiffs = compareCuePropertiesDetailed L cachedCue currentCue;
                          sourceMatchesCache = (length sourceCacheDiffs = 0);
                          cacheMatchesCurrent = (length cacheCurrentDiffs = 0);
                          result = withCueID currentCue result
                      in if sourceMatchesCache \<and> cacheMatchesCurrent then
                           result\<lparr>HasChanged := False, Action := ''skip'',
                                  Reason := ''unchanged since last transmission'',
                                  ModifiedFields := []\<rparr>
                         else if sourceMatchesCache \<and> \<not> cacheMatchesCurrent then
                           result\<lparr>HasChanged := True, Action := ''update'',
                                  Reason := ''QLab modified externally, reverting to source'',
                                  ModifiedFields := cacheCurrentDiffs\<rparr>
                         else if \<not> sourceMatchesCache \<and> cacheMatchesCurrent then
                           result\<lparr>HasChanged := True, Action := ''update'',
                                  Reason := ''source file modified'',
                                  ModifiedFields := sourceCacheDiffs\<rparr>
                         else
                           result\<lparr>HasChanged := True, Action := ''update'',
                                  Reason := ''both source and QLab modified'',
                                  ModifiedFields := mergeDiffs sourceCacheDiffs cacheCurrentDiffs\<rparr>)
                 | None \<Rightarrow>
                     (let sourceCurrentDiffs = compareCuePropertiesDetailed L sourceCue currentCue;
                          result = withCueID currentCue result
                      in if length sourceCurrentDiffs = 0 then
                           result\<lparr>HasChanged := False, Action := ''skip'',
                                  Reason := ''matches current QLab state'',
                                  ModifiedFields := []\<rparr>
                         else
                           result\<lparr>HasChanged := True, Action := ''update'',
                                  Reason := ''differs from current QLab state'',
                                  ModifiedFields := sourceCurrentDiffs\<rparr>))
         | None \<Rightarrow>
             result\<lparr>HasChanged := True, Action := ''create'', Reason := ''new cue'',
                    ModifiedFields := []\<rparr>)"

text \<open>
  One round of the loop of \<^verbatim>\<open>linkScopeDataToCueResults\<close>: the scope of a cue is attached
  to the result stored under its identifier, if there is one.
\<close>

definition linkScope :: "ScopeComparison \<Rightarrow> CueChangeResult gomap \<Rightarrow> CueChangeResult gomap" where
  "linkScope cueScope results =
     (if ScopeComparison.Scope cueScope = ScopeCue then
        (case map_of results (ScopeComparison.Identifier cueScope) of
           Some result \<Rightarrow>
             AList.update (ScopeComparison.Identifier cueScope)
               (result\<lparr>ScopeData := Some cueScope,
                       CueChangeResult.FieldConflicts := FieldChanges cueScope\<rparr>)
               results
         | None \<Rightarrow> results)
      else results)"

definition linkScopeDataToCueResults :: "ThreeWayComparison \<Rightarrow> ThreeWayComparison" where
  "linkScopeDataToCueResults comparison =
     (case WorkspaceScope comparison of
        None \<Rightarrow> comparison
      | Some scope \<Rightarrow>
          comparison\<lparr>CueResults :=
            fold linkScope (ScopeComparison.ChildScopes scope) (CueResults comparison)\<rparr>)"

text \<open>
  The fields of a result that the comparison of one cue decides. The scope data and the
  field conflicts are the two that \<^verbatim>\<open>linkScopeDataToCueResults\<close> writes afterwards.
\<close>

definition verdict :: "CueChangeResult \<Rightarrow> bool \<times> string \<times> string \<times> string \<times> string gomap \<times> string" where
  "verdict r = (HasChanged r, Action r, Reason r, ExistingID r, ModifiedFields r, CueID r)"

text \<open>
  \<^verbatim>\<open>PerformThreeWayComparison\<close>. The error it returns is nil on every path, so the result
  is always \<open>Inr\<close>.
\<close>

definition PerformThreeWayComparison ::
  "golib \<Rightarrow> reconcile_env \<Rightarrow> cue \<Rightarrow> string + ThreeWayComparison" where
  "PerformThreeWayComparison L env sourceCueData =
     (let (hasCache, cachedWorkspace) = loadCachedWorkspace env;
          (hasQLabData, currentWorkspace) = queryCurrent env;
          cacheMatchesQLab =
            (if hasCache \<and> hasQLabData
             then compareCacheWithCurrentState L cachedWorkspace currentWorkspace else False);
          workspaceScope =
            (if hasCache \<and> hasQLabData then
               (case PerformScopeBasedComparison env sourceCueData cachedWorkspace currentWorkspace of
                  Inl err \<Rightarrow> None
                | Inr scopeComparison \<Rightarrow> Some scopeComparison)
             else None);
          sourceCues = indexCuesFromWorkspace L sourceCueData;
          cachedCues = (if hasCache then indexCuesFromWorkspace L cachedWorkspace else []);
          currentCues = (if hasQLabData then indexCuesFromWorkspace L currentWorkspace else []);
          cueResults =
            fold (\<lambda>(cueNumber, sourceCue).
                    AList.update cueNumber
                      (compareSourceCue L cachedCues currentCues cueNumber sourceCue))
                 sourceCues [];
          comparison =
            \<lparr>CueResults = cueResults, HasCache = hasCache, HasQLabData = hasQLabData,
             CacheMatchesQLab = cacheMatchesQLab, QLabChosenCues = [], QLabChosenFields = [],
             CurrentQLabData = currentWorkspace,
             WorkspaceScope = workspaceScope, MergedResult = None\<rparr>
      in Inr (linkScopeDataToCueResults comparison))"

section \<open>Conflicts\<close>

text \<open>\<^verbatim>\<open>%v\<close> on a slice of strings: the elements between brackets, a space between two.\<close>

fun joinWords :: "string list \<Rightarrow> string" where
  "joinWords [] = []"
| "joinWords [w] = w"
| "joinWords (w # ws) = w @ '' '' @ joinWords ws"

definition showStrings :: "string list \<Rightarrow> string" where
  "showStrings ws = ''['' @ joinWords ws @ '']''"

text \<open>
  \<^verbatim>\<open>identifyConflictsFromScope\<close>. Its test \<^verbatim>\<open>isFieldConflict\<close> is taken as a parameter.
\<close>

fun identifyConflictsFromScope ::
  "golib \<Rightarrow> (FieldConflict \<Rightarrow> bool) \<Rightarrow> ScopeComparison \<Rightarrow> CueConflict list" where
  "identifyConflictsFromScope L isFieldConflict
     (ScopeComparison scopeKind identifier hasChanges changeType fieldChanges childScopes
        conflictExists resolved) =
     (let own =
        (if conflictExists then
           (let fieldConflicts = filter (\<lambda>(fieldName, fieldConflict). isFieldConflict fieldConflict) fieldChanges;
                properties = map fst fieldConflicts
            in if length properties > 0 then
                 (let hasSourceChanges =
                        list_ex (\<lambda>(fieldName, fc).
                                   \<not> comparePropertyValues L (FieldName fc)
                                       (normalizeProperty L (SourceValue fc))
                                       (normalizeProperty L (CacheValue fc))) fieldConflicts;
                      hasQLabChanges =
                        list_ex (\<lambda>(fieldName, fc).
                                   \<not> comparePropertyValues L (FieldName fc)
                                       (normalizeProperty L (QLabValue fc))
                                       (normalizeProperty L (CacheValue fc))) fieldConflicts;
                      conflictType =
                        (if hasSourceChanges \<and> hasQLabChanges then ConflictThreeWayDivergence
                         else if hasQLabChanges then ConflictCacheStale
                         else if hasSourceChanges then ConflictSourceModified
                         else []);
                      subject = scopeKind @ '' '' @ [CHR 0x27] @ identifier @ [CHR 0x27];
                      fields = '' (fields: '' @ showStrings properties @ '')'';
                      description =
                        (if hasSourceChanges \<and> hasQLabChanges then
                           subject @ '' has conflicting changes in source and QLab'' @ fields
                         else if hasQLabChanges then subject @ '' modified in QLab'' @ fields
                         else if hasSourceChanges then subject @ '' modified in source'' @ fields
                         else [])
                  in [\<lparr>CueNumber = identifier, CueIdentifier = identifier,
                       ConflictType = conflictType, Scope = scopeKind,
                       SourceData = [], CacheData = [], QLabData = [],
                       Properties = properties, FieldConflicts = fieldConflicts,
                       Description = description, Resolved = False\<rparr>])
               else [])
         else [])
      in own @ concat (map (identifyConflictsFromScope L isFieldConflict) childScopes))"

text \<open>One round of the fallback loop of \<^verbatim>\<open>IdentifyConflicts\<close> over the flat results.\<close>

definition legacyConflict :: "string \<times> CueChangeResult \<Rightarrow> CueConflict list" where
  "legacyConflict entry =
     (case entry of (cueNumber, result) \<Rightarrow>
        if Action result = ''update'' \<and>
           (Contains (Reason result) ''QLab modified externally'' \<or>
            Contains (Reason result) ''both source and QLab modified'') then
          (let stale = Contains (Reason result) ''QLab modified externally'';
               conflictType = (if stale then ConflictCacheStale else ConflictThreeWayDivergence);
               description =
                 (if stale then
                    ''Cue '' @ cueNumber @ '' has been modified in QLab since last sync''
                  else ''Cue '' @ cueNumber @
                       '' has been modified in both the source file and QLab since last sync'')
           in [\<lparr>CueNumber = cueNumber, CueIdentifier = cueNumber,
                ConflictType = conflictType, Scope = ScopeCue,
                SourceData = [], CacheData = [], QLabData = [],
                Properties = [], FieldConflicts = CueChangeResult.FieldConflicts result,
                Description = description, Resolved = False\<rparr>])
        else [])"

text \<open>\<^verbatim>\<open>IdentifyConflicts\<close>: the conflicts and the error, which is nil on every path.\<close>

definition IdentifyConflicts ::
  "golib \<Rightarrow> (FieldConflict \<Rightarrow> bool) \<Rightarrow> ThreeWayComparison \<Rightarrow> string + CueConflict list" where
  "IdentifyConflicts L isFieldConflict comparison =
     (if \<not> HasQLabData comparison then Inr []
      else if \<not> HasCache comparison then Inr []
      else if CacheMatchesQLab comparison then Inr []
      else case WorkspaceScope comparison of
             Some scope \<Rightarrow> Inr (identifyConflictsFromScope L isFieldConflict scope)
           | None \<Rightarrow> Inr (concat (map legacyConflict (CueResults comparison))))"

section \<open>Applying resolutions\<close>

definition ChoiceUseSource :: string where
  "ChoiceUseSource = ''use_source''"

definition ChoiceKeepQLab :: string where
  "ChoiceKeepQLab = ''keep_qlab''"

definition ChoiceSkip :: string where
  "ChoiceSkip = ''skip''"

text \<open>
  One round of the loop of \<^verbatim>\<open>ApplyResolutions\<close>. A choice that is none of the three
  constants leaves the result as it is.
\<close>

definition applyResolution :: "string \<times> string \<Rightarrow> ThreeWayComparison \<Rightarrow> ThreeWayComparison" where
  "applyResolution entry comparison =
     (case entry of (cueNumber, choice) \<Rightarrow>
        (case map_of (CueResults comparison) cueNumber of
           None \<Rightarrow> comparison
         | Some result \<Rightarrow>
             (if choice = ChoiceUseSource then
                comparison\<lparr>CueResults :=
                  AList.update cueNumber
                    (result\<lparr>Action := ''update'',
                            Reason := ''User chose to use source file version''\<rparr>)
                    (CueResults comparison)\<rparr>
              else if choice = ChoiceKeepQLab then
                comparison\<lparr>QLabChosenCues := AList.update cueNumber True (QLabChosenCues comparison),
                            CueResults :=
                  AList.update cueNumber
                    (result\<lparr>Action := ''skip'', Reason := ''User chose to keep QLab version''\<rparr>)
                    (CueResults comparison)\<rparr>
              else if choice = ChoiceSkip then
                comparison\<lparr>CueResults :=
                  AList.update cueNumber
                    (result\<lparr>Action := ''skip'', Reason := ''User chose to skip this cue''\<rparr>)
                    (CueResults comparison)\<rparr>
              else
                comparison\<lparr>CueResults := AList.update cueNumber result (CueResults comparison)\<rparr>)))"

definition ApplyResolutions :: "ThreeWayComparison \<Rightarrow> string gomap \<Rightarrow> ThreeWayComparison" where
  "ApplyResolutions comparison resolutions = fold applyResolution resolutions comparison"

section \<open>Preserving skipped cues in the new cache\<close>



section \<open>The mutation pass\<close>

text \<open>
  The commands that the pass sends to the remote workspace. \<^verbatim>\<open>createCueWithoutTarget\<close>,
  \<^verbatim>\<open>updateCueProperties\<close>, \<^verbatim>\<open>moveCueToParent\<close> and \<^verbatim>\<open>moveCueToParentWithIndex\<close>
  and \<^verbatim>\<open>setCueProperty\<close> each stand for the messages they send: a call is written to the log \<open>sent\<close>, and what
  the remote answers, given all that was sent before, is a parameter.
\<close>

datatype command =
    CreateCue cue string
  | UpdateCue string cue
  | MoveCue string string
  | MoveCueWithIndex string string int
  | SetCueProperty string string string

record remote =
  createCueWithoutTarget :: "command list \<Rightarrow> cue \<Rightarrow> string \<Rightarrow> string + string"
  updateCueProperties :: "command list \<Rightarrow> string \<Rightarrow> cue \<Rightarrow> string option"
  moveCueToParent :: "command list \<Rightarrow> string \<Rightarrow> string \<Rightarrow> string option"
  moveCueToParentWithIndex :: "command list \<Rightarrow> string \<Rightarrow> string \<Rightarrow> int \<Rightarrow> string option"
  setCueProperty :: "command list \<Rightarrow> string \<Rightarrow> string \<Rightarrow> string \<Rightarrow> string option"

text \<open>
  What the pass changes: the names of the known cue lists, the mapping from numbers to
  remote IDs with the targets still to be set, and the log of commands.
\<close>

record mutation =
  cueListNames :: "string gomap"
  NumberToID :: "string gomap"
  CuesWithTargets :: "(string \<times> string) list"
  sent :: "command list"

text \<open>\<^verbatim>\<open>if fullNumber != "" && uniqueID != "" { mapping.NumberToID[fullNumber] = uniqueID }\<close>\<close>

definition recordNumber :: "string \<Rightarrow> string \<Rightarrow> mutation \<Rightarrow> mutation" where
  "recordNumber fullNumber uniqueID st =
     (if fullNumber \<noteq> [] \<and> uniqueID \<noteq> []
      then st\<lparr>NumberToID := AList.update fullNumber uniqueID (NumberToID st)\<rparr> else st)"

definition doCreate :: "remote \<Rightarrow> cue \<Rightarrow> string \<Rightarrow> mutation \<Rightarrow> (string + string) \<times> mutation" where
  "doCreate R cueData fullNumber st =
     (createCueWithoutTarget R (sent st) cueData fullNumber,
      st\<lparr>sent := sent st @ [CreateCue cueData fullNumber]\<rparr>)"

definition doUpdate :: "remote \<Rightarrow> string \<Rightarrow> cue \<Rightarrow> mutation \<Rightarrow> string option \<times> mutation" where
  "doUpdate R uniqueID cueData st =
     (updateCueProperties R (sent st) uniqueID cueData,
      st\<lparr>sent := sent st @ [UpdateCue uniqueID cueData]\<rparr>)"

definition doMove :: "remote \<Rightarrow> string \<Rightarrow> string \<Rightarrow> mutation \<Rightarrow> string option \<times> mutation" where
  "doMove R cueID parentCueID st =
     (moveCueToParent R (sent st) cueID parentCueID,
      st\<lparr>sent := sent st @ [MoveCue cueID parentCueID]\<rparr>)"

definition doMoveWithIndex ::
  "remote \<Rightarrow> string \<Rightarrow> string \<Rightarrow> int \<Rightarrow> mutation \<Rightarrow> string option \<times> mutation" where
  "doMoveWithIndex R cueID parentCueID index st =
     (moveCueToParentWithIndex R (sent st) cueID parentCueID index,
      st\<lparr>sent := sent st @ [MoveCueWithIndex cueID parentCueID index]\<rparr>)"

text \<open>
  The key under which the pass looks a cue up in the change results: the full number, or
  for a cue without a number that has an index in its parent, the positional key. The
  pass starts every top-level cue with the index \<open>-1\<close>.
\<close>

definition changeResultFor ::
  "golib \<Rightarrow> CueChangeResult gomap \<Rightarrow> cue \<Rightarrow> string \<Rightarrow> int \<Rightarrow> (CueChangeResult \<times> string) option" where
  "changeResultFor L changeResults cueData parentNumber cueIndex =
     (let cueType = str_field cueData ''type'';
          cueName = str_field cueData ''name'';
          fullNumber = fullNumberOf parentNumber (cueNumberOf L cueData);
          key = (if fullNumber = [] \<and> cueIndex \<ge> 0
                 then positionKey parentNumber cueIndex (ToLower L cueType) cueName else [])
      in if fullNumber \<noteq> [] then
           (case map_of changeResults fullNumber of
              Some result \<Rightarrow> Some (result, fullNumber) | None \<Rightarrow> None)
         else if key \<noteq> [] then
           (case map_of changeResults key of
              Some result \<Rightarrow> Some (result, key) | None \<Rightarrow> None)
         else None)"

text \<open>
  The first half of \<^verbatim>\<open>processCueListWithParentMappingAndChangeDetectionWithIndex\<close>, up to
  the point where the remote ID of the cue is known: either the function has returned
  (\<open>Return\<close>, with the ID or the error), or it goes on with the ID (\<open>Proceed\<close>).
\<close>

datatype outcome = Return "string + string" | Proceed string

definition beginCue ::
  "golib \<Rightarrow> remote \<Rightarrow> CueChangeResult gomap \<Rightarrow> cue \<Rightarrow> string \<Rightarrow> int \<Rightarrow> mutation
   \<Rightarrow> outcome \<times> mutation" where
  "beginCue L R changeResults cueData parentNumber cueIndex st =
     (let cueType = str_field cueData ''type'';
          cueName = str_field cueData ''name'';
          existingCueListID =
            (if cueType = ''list'' \<and> cueName \<noteq> [] then
               (case map_of (cueListNames st) cueName of Some existingID \<Rightarrow> existingID | None \<Rightarrow> [])
             else []);
          fullNumber = fullNumberOf parentNumber (cueNumberOf L cueData)
      in case changeResultFor L changeResults cueData parentNumber cueIndex of
           Some (changeResult, lookupKey) \<Rightarrow>
             (if Action changeResult = ''skip'' then
                (Return (Inr (ExistingID changeResult)),
                 recordNumber fullNumber (ExistingID changeResult) st)
              else if Action changeResult = ''update'' then
                (if ExistingID changeResult = [] then
                   (Return (Inl (''cannot update cue '' @ lookupKey @ '': no existing ID provided'')), st)
                 else
                   (case doUpdate R (ExistingID changeResult) cueData st of
                      (Some err, st1) \<Rightarrow>
                        (Return (Inl (''failed to update cue '' @ lookupKey @ '': '' @ err)), st1)
                    | (None, st1) \<Rightarrow>
                        (Proceed (ExistingID changeResult),
                         recordNumber fullNumber (ExistingID changeResult) st1)))
              else
                (case doCreate R cueData fullNumber st of
                   (Inl err, st1) \<Rightarrow>
                     (Return (Inl (''failed to create cue '' @ lookupKey @ '': '' @ err)), st1)
                 | (Inr uniqueID, st1) \<Rightarrow> (Proceed uniqueID, st1)))
         | None \<Rightarrow>
             (if existingCueListID \<noteq> [] then
                (Return (Inr existingCueListID), recordNumber fullNumber existingCueListID st)
              else
                (case doCreate R cueData fullNumber st of
                   (Inl err, st1) \<Rightarrow>
                     (Return (Inl (''failed to create cue '' @ fullNumber @ '': '' @ err)), st1)
                 | (Inr uniqueID, st1) \<Rightarrow> (Proceed uniqueID, st1))))"

text \<open>
  From there to the loop over the sub-cues: the cue list is remembered by its name, the
  number by its ID, a target is put aside, and the cue is moved into the parent whose ID
  was given, unless that parent is a cue list that existed before.
\<close>

definition settleCue ::
  "remote \<Rightarrow> cue \<Rightarrow> string \<Rightarrow> string \<Rightarrow> string \<Rightarrow> mutation \<Rightarrow> string option \<times> mutation" where
  "settleCue R cueData fullNumber parentUniqueID uniqueID st =
     (let cueType = str_field cueData ''type'';
          cueName = str_field cueData ''name'';
          st1 = (if cueType = ''list'' \<and> cueName \<noteq> [] \<and> uniqueID \<noteq> []
                 then st\<lparr>cueListNames := AList.update cueName uniqueID (cueListNames st)\<rparr> else st);
          st2 = recordNumber fullNumber uniqueID st1;
          targetNumber = str_field cueData ''cueTargetNumber'';
          st3 = (if targetNumber \<noteq> [] \<and> uniqueID \<noteq> []
                 then st2\<lparr>CuesWithTargets := CuesWithTargets st2 @ [(uniqueID, targetNumber)]\<rparr>
                 else st2)
      in if parentUniqueID \<noteq> [] \<and> uniqueID \<noteq> [] then
           (if parentUniqueID \<in> snd ` set (cueListNames st3) then (None, st3)
            else
              (case doMove R uniqueID parentUniqueID st3 of
                 (Some err, st4) \<Rightarrow>
                   (Some (''failed to move cue '' @ uniqueID @ '' into parent '' @ parentUniqueID
                          @ '': '' @ err), st4)
               | (None, st4) \<Rightarrow> (None, st4)))
         else (None, st3))"

text \<open>
  After a sub-cue has been processed: it is moved into its parent at its index, unless
  no ID came back, its change result says skip, or the parent is a cue list that existed
  before.
\<close>

definition placeChild ::
  "golib \<Rightarrow> remote \<Rightarrow> CueChangeResult gomap \<Rightarrow> cue \<Rightarrow> string \<Rightarrow> string \<Rightarrow> nat \<Rightarrow> string \<Rightarrow> mutation
   \<Rightarrow> string option \<times> mutation" where
  "placeChild L R changeResults subCue fullNumber uniqueID childIndex childUniqueID st =
     (if childUniqueID \<noteq> [] then
        (let childCueType = str_field subCue ''type'';
             childCueName = str_field subCue ''name'';
             childFullNumber = str_field subCue ''number'';
             childLookupKey =
               (if childFullNumber \<noteq> [] then childFullNumber
                else positionKey fullNumber (int childIndex) (ToLower L childCueType) childCueName);
             shouldSkipMove =
               (case map_of changeResults childLookupKey of
                  Some childChangeResult \<Rightarrow> Action childChangeResult = ''skip''
                | None \<Rightarrow> False)
         in if shouldSkipMove then (None, st)
            else if uniqueID \<in> snd ` set (cueListNames st) then (None, st)
            else
              (case doMoveWithIndex R childUniqueID uniqueID (int childIndex) st of
                 (Some err, st1) \<Rightarrow>
                   (Some (''failed to move child cue '' @ childUniqueID @ '' into parent ''
                          @ uniqueID @ '' at index '' @ show_int (int childIndex) @ '': '' @ err),
                    st1)
               | (None, st1) \<Rightarrow> (None, st1)))
      else (None, st))"

lemma size_sub_cues:
  "map_of cueData ''cues'' = Some (JArray subCues) \<Longrightarrow>
   size_list size subCues < size_list (size_prod (\<lambda>_. 0) size) cueData"
  by (drule size_map_of_json) simp

text \<open>
  \<^verbatim>\<open>processCueListWithParentMappingAndChangeDetectionWithIndex\<close> and its loop over the
  sub-cues. An error of a sub-cue ends the loop and is returned by the parent, wrapped
  with the index of the sub-cue.
\<close>

function
  processCue ::
    "golib \<Rightarrow> remote \<Rightarrow> CueChangeResult gomap \<Rightarrow> cue \<Rightarrow> string \<Rightarrow> string \<Rightarrow> int
     \<Rightarrow> mutation \<Rightarrow> (string + string) \<times> mutation"
and
  processSubCues ::
    "golib \<Rightarrow> remote \<Rightarrow> CueChangeResult gomap \<Rightarrow> json list \<Rightarrow> string \<Rightarrow> string \<Rightarrow> nat
     \<Rightarrow> mutation \<Rightarrow> string option \<times> mutation"
where
  "processCue L R changeResults cueData parentNumber parentUniqueID cueIndex =
     (\<lambda>st.
        case beginCue L R changeResults cueData parentNumber cueIndex st of
          (Return r, st1) \<Rightarrow> (r, st1)
        | (Proceed uniqueID, st1) \<Rightarrow>
            (let fullNumber = fullNumberOf parentNumber (cueNumberOf L cueData)
             in case settleCue R cueData fullNumber parentUniqueID uniqueID st1 of
                  (Some err, st2) \<Rightarrow> (Inl err, st2)
                | (None, st2) \<Rightarrow>
                    (case map_of cueData ''cues'' of
                       Some (JArray subCues) \<Rightarrow>
                         (if uniqueID \<noteq> [] then
                            (case processSubCues L R changeResults subCues fullNumber uniqueID 0 st2 of
                               (Some err, st3) \<Rightarrow> (Inl err, st3)
                             | (None, st3) \<Rightarrow> (Inr uniqueID, st3))
                          else (Inr uniqueID, st2))
                     | _ \<Rightarrow> (Inr uniqueID, st2))))"
| "processSubCues L R changeResults [] fullNumber uniqueID childIndex = (\<lambda>st. (None, st))"
| "processSubCues L R changeResults (subCueData # rest) fullNumber uniqueID childIndex =
     (\<lambda>st.
        case subCueData of
          JObject subCue \<Rightarrow>
            (case processCue L R changeResults subCue fullNumber [] (int childIndex) st of
               (Inl err, st1) \<Rightarrow>
                 (Some (''error processing sub-cue '' @ show_int (int childIndex) @ '': '' @ err), st1)
             | (Inr childUniqueID, st1) \<Rightarrow>
                 (case placeChild L R changeResults subCue fullNumber uniqueID childIndex
                         childUniqueID st1 of
                    (Some err, st2) \<Rightarrow> (Some err, st2)
                  | (None, st2) \<Rightarrow>
                      processSubCues L R changeResults rest fullNumber uniqueID (Suc childIndex) st2))
        | _ \<Rightarrow> processSubCues L R changeResults rest fullNumber uniqueID (Suc childIndex) st)"
  by pat_completeness auto
termination
  by (relation "measure (\<lambda>x. case x of
                   Inl (L, R, cr, cueData, p, pu, i) \<Rightarrow> 2 * size_list (size_prod (\<lambda>_. 0) size) cueData + 1
                 | Inr (L, R, cr, subCues, f, u, i) \<Rightarrow> 2 * size_list size subCues)")
     (auto dest: size_sub_cues)

text \<open>
  The loop of \<^verbatim>\<open>transmitCueFileWithChangeDetection\<close> over the top-level cues, each
  started without a parent and with the index \<open>-1\<close>.
\<close>

fun processTopLevel ::
  "golib \<Rightarrow> remote \<Rightarrow> CueChangeResult gomap \<Rightarrow> json list \<Rightarrow> mutation \<Rightarrow> string option \<times> mutation" where
  "processTopLevel L R changeResults [] st = (None, st)"
| "processTopLevel L R changeResults (cueAny # rest) st =
     (case cueAny of
        JObject cueData \<Rightarrow>
          (case processCue L R changeResults cueData [] [] (- 1) st of
             (Inl err, st1) \<Rightarrow> (Some (''failed to process cue: '' @ err), st1)
           | (Inr uniqueID, st1) \<Rightarrow> processTopLevel L R changeResults rest st1)
      | _ \<Rightarrow> processTopLevel L R changeResults rest st)"




section \<open>Request and reply\<close>

text \<open>
  What \<^verbatim>\<open>sendWithRetry\<close> does that can be seen from outside, in order: a handler is
  registered for the reply to a request, the message is sent, the caller waits for the
  reply or for the timer, a handler that timed out is removed, the caller sleeps before
  the next attempt, the disconnect callback is called.
\<close>

datatype event =
    Listen string int
  | Send string "json list"
  | Await int int
  | Unlisten string int
  | Sleep int
  | Disconnect

text \<open>
  The network is the other side of the \<^verbatim>\<open>select\<close>: whether the client could send the
  message of a request, and whether the reply to it came before the timer of so many
  seconds (\<open>Some\<close> of the reply) or not (\<open>None\<close>).
\<close>

record network =
  clientSend :: "int \<Rightarrow> string option"
  awaitReply :: "int \<Rightarrow> int \<Rightarrow> json list option"

record connection =
  maxRetries :: int
  timeout :: int
  requestCounter :: int
  consecutiveErrors :: int
  wasConnected :: bool
  onDisconnect :: bool
  events :: "event list"

definition timeoutReply :: "json list" where
  \<open>timeoutReply = [JString ''{"status": "error", "error": "timeout waiting for reply from QLab"}'']\<close>

definition emit :: "event list \<Rightarrow> connection \<Rightarrow> connection" where
  "emit es q = q\<lparr>events := events q @ es\<rparr>"

text \<open>The callback is called on the second failure in a row of a workspace that was connected.\<close>

definition notifyDisconnect :: "connection \<Rightarrow> connection" where
  "notifyDisconnect q =
     (if connection.wasConnected q \<and> consecutiveErrors q \<ge> 2 \<and> onDisconnect q
      then (emit [Disconnect] q)\<lparr>connection.wasConnected := False\<rparr> else q)"

text \<open>
  The loop \<^verbatim>\<open>for attempt := 0; attempt <= maxRetries; attempt++\<close> of \<^verbatim>\<open>sendWithRetry\<close>,
  from a given attempt on. The counters are integers without a bound; the loop ends long
  before a machine integer would wrap.
\<close>

function sendAttempts ::
  "network \<Rightarrow> string \<Rightarrow> string \<Rightarrow> json list \<Rightarrow> int \<Rightarrow> int \<Rightarrow> connection
   \<Rightarrow> json list \<times> connection" where
  "sendAttempts N address input args retries attempt q =
     (if attempt \<le> retries then
        (let message = (if input \<noteq> [] then [JString input] else []) @ args;
             requestID = requestCounter q + 1;
             q1 = emit [Listen address requestID] (q\<lparr>requestCounter := requestID\<rparr>)
         in case clientSend N requestID of
              Some err \<Rightarrow> sendAttempts N address input args retries (attempt + 1) q1
            | None \<Rightarrow>
                (let seconds = (if timeout q1 = 0 then 10 else timeout q1);
                     q2 = emit [Send address message, Await requestID seconds] q1
                 in case awaitReply N requestID seconds of
                      Some result \<Rightarrow>
                        (result, q2\<lparr>consecutiveErrors := 0, connection.wasConnected := True\<rparr>)
                    | None \<Rightarrow>
                        (let q3 = emit [Unlisten address requestID] q2
                         in if attempt < retries then
                              sendAttempts N address input args retries (attempt + 1)
                                (emit [Sleep 100] q3)
                            else
                              (let q4 = q3\<lparr>consecutiveErrors := consecutiveErrors q3 + 1\<rparr>
                               in (timeoutReply,
                                   if connection.wasConnected q4 then notifyDisconnect q4 else q4)))))
      else
        (timeoutReply, notifyDisconnect (q\<lparr>consecutiveErrors := consecutiveErrors q + 1\<rparr>)))"
  by pat_completeness auto
termination
  by (relation "measure (\<lambda>(N, address, input, args, retries, attempt, q). nat (retries + 1 - attempt))")
     auto

definition sendWithRetry ::
  "network \<Rightarrow> string \<Rightarrow> string \<Rightarrow> json list \<Rightarrow> connection \<Rightarrow> json list \<times> connection" where
  "sendWithRetry N address input args q = sendAttempts N address input args (maxRetries q) 0 q"

text \<open>The fields of \<^verbatim>\<open>NewWorkspace\<close> that the request loop reads.\<close>

definition NewWorkspace :: connection where
  "NewWorkspace =
     \<lparr>maxRetries = 0, timeout = 10, requestCounter = 0, consecutiveErrors = 0,
      wasConnected = False, onDisconnect = False, events = []\<rparr>"

text \<open>Two readings of a log: the seconds of each wait, and the milliseconds of each sleep.\<close>

fun awaits :: "event list \<Rightarrow> int list" where
  "awaits [] = []"
| "awaits (Await requestID seconds # es) = seconds # awaits es"
| "awaits (e # es) = awaits es"

fun sleeps :: "event list \<Rightarrow> int list" where
  "sleeps [] = []"
| "sleeps (Sleep ms # es) = ms # sleeps es"
| "sleeps (e # es) = sleeps es"

section \<open>Concrete inputs\<close>

text \<open>
  A library for evaluating the definitions on concrete trees. It prints the float 2.5
  the way \<^verbatim>\<open>%g\<close> does and a question mark for every other value of the two verbs. Its
  \<^verbatim>\<open>ToLower\<close> maps the letters A to Z to a to z and keeps every other byte, and its
  \<^verbatim>\<open>EqualFold\<close> compares what that gives: this is what Go's two functions do on a string
  of ASCII characters, and the examples hold no other.
\<close>

definition lower_ascii :: "char \<Rightarrow> char" where
  "lower_ascii c =
     (case map_of (zip ''ABCDEFGHIJKLMNOPQRSTUVWXYZ'' ''abcdefghijklmnopqrstuvwxyz'') c of
        Some d \<Rightarrow> d | None \<Rightarrow> c)"

definition plainLib :: golib where
  "plainLib =
     \<lparr>sprintf_g = (\<lambda>f. if f = FNum (5 / 2) then ''2.5'' else ''?''),
      sprintf_v = (\<lambda>v. ''?''),
      ToLower = map lower_ascii,
      EqualFold = (\<lambda>s t. map lower_ascii s = map lower_ascii t)\<rparr>"

text \<open>A result that says the remote cue was changed behind the cache, in a comparison with given flags.\<close>

definition staleResult :: CueChangeResult where
  "staleResult =
     \<lparr>HasChanged = True, Reason = ''QLab modified externally, reverting to source'',
      ExistingID = ''ID-1'', Action = ''update'', ModifiedFields = [(''name'', diffText ''A'' ''B'')],
      CueID = ''ID-1'', FieldConflicts = [], ScopeData = None\<rparr>"

definition staleComparison :: "bool \<Rightarrow> bool \<Rightarrow> bool \<Rightarrow> ThreeWayComparison" where
  "staleComparison hasCache hasQLabData cacheMatchesQLab =
     \<lparr>CueResults = [(''1'', staleResult)], HasCache = hasCache, HasQLabData = hasQLabData,
      CacheMatchesQLab = cacheMatchesQLab, QLabChosenCues = [], QLabChosenFields = [],
      CurrentQLabData = [], WorkspaceScope = None, MergedResult = None\<rparr>"

text \<open>Three results and a choice for each of them, with one choice for a key that has no result.\<close>

definition threeResults :: ThreeWayComparison where
  "threeResults =
     \<lparr>CueResults = [(''1'', staleResult), (''2'', staleResult), (''3'', staleResult)],
      HasCache = True, HasQLabData = True,
      CacheMatchesQLab = False, QLabChosenCues = [], QLabChosenFields = [],
      CurrentQLabData = [], WorkspaceScope = None, MergedResult = None\<rparr>"

definition threeChoices :: "string gomap" where
  "threeChoices = [(''1'', ChoiceKeepQLab), (''2'', ChoiceUseSource), (''3'', ChoiceSkip), (''9'', ChoiceSkip)]"

text \<open>
  A source of four cues, and replies of the remote in the shape of the cue-list query. The
  cache holds the names A, B, C, D. Against it the source has changed the third and the
  fourth name and the remote the second and the fourth.
\<close>

definition audioCue :: "string \<Rightarrow> string \<Rightarrow> cue" where
  "audioCue number name = [(''number'', JString number), (''name'', JString name), (''type'', JString ''audio'')]"

definition remoteAudioCue :: "string \<Rightarrow> string \<Rightarrow> cue" where
  "remoteAudioCue number name =
     [(''uniqueID'', JString (''ID-'' @ number)), (''number'', JString number),
      (''name'', JString name), (''type'', JString ''Audio''), (''armed'', JBool True)]"

definition sourceTree :: cue where
  "sourceTree =
     [(''cues'', JArray [JObject (audioCue ''1'' ''A''), JObject (audioCue ''2'' ''B''),
                         JObject (audioCue ''3'' ''C2''), JObject (audioCue ''4'' ''D1'')])]"

definition replyTree :: "string \<Rightarrow> string \<Rightarrow> string \<Rightarrow> string \<Rightarrow> cue" where
  "replyTree a b c d =
     [(''status'', JString ''ok''),
      (''data'', JArray [JObject [(''name'', JString ''Main''),
         (''cues'', JArray [JObject (remoteAudioCue ''1'' a), JObject (remoteAudioCue ''2'' b),
                            JObject (remoteAudioCue ''3'' c), JObject (remoteAudioCue ''4'' d)])]])]"

definition cacheTree :: cue where
  "cacheTree = replyTree ''A'' ''B'' ''C'' ''D''"

definition currentTree :: cue where
  "currentTree = replyTree ''A'' ''B2'' ''C'' ''D2''"

definition reachable :: reconcile_env where
  "reachable =
     \<lparr>loadCache = Inr cacheTree, queryCurrentWorkspaceState = Inr currentTree,
      queryWorkspaceStateLightweight = Inl ''not asked'', wasConnected = True,
      PerformScopeBasedComparison = (\<lambda>source cached current. Inl ''not available'')\<rparr>"

definition unreachable :: reconcile_env where
  "unreachable =
     \<lparr>loadCache = Inr cacheTree,
      queryCurrentWorkspaceState = Inl ''QLab error querying workspace state: timeout waiting for reply from QLab'',
      queryWorkspaceStateLightweight = Inl ''lightweight query failed'', wasConnected = True,
      PerformScopeBasedComparison = (\<lambda>source cached current. Inl ''not available'')\<rparr>"

text \<open>
  Two cues that agree under the rules of the comparator in everything but the name: the
  type differs in case, the file target in its directory, the duration and the color name
  in the way their default is written, armed and flagged in their value, and only the left
  cue has a cue target number.
\<close>

definition leftCue :: cue where
  "leftCue =
     [(''name'', JString ''A''), (''type'', JString ''Audio''),
      (''fileTarget'', JString ''/shows/intro/door.wav''), (''duration'', JString ''0''),
      (''cueTargetNumber'', JString ''5''), (''armed'', JString ''true''),
      (''colorName'', JString []), (''flagged'', JBool True), (''notes'', JString ''fade in'')]"

definition rightCue :: cue where
  "rightCue =
     [(''name'', JString ''B''), (''type'', JString ''audio''),
      (''fileTarget'', JString ''/Users/operator/door.wav''), (''duration'', JString []),
      (''armed'', JString []), (''colorName'', JString ''none''), (''flagged'', JBool False),
      (''notes'', JString ''fade in'')]"

text \<open>
  Two cues whose values are numbers, booleans and nil: the duration, the notes, the cue
  target number and the file target differ, armed and flagged differ as well, and the
  color name is nil on one side and "none" on the other.
\<close>

definition meteredCue :: cue where
  "meteredCue =
     [(''name'', JString ''Go''), (''type'', JString ''Audio''),
      (''fileTarget'', JString ''a/b.wav''), (''duration'', JFloat (FNum (5 / 2))),
      (''cueTargetNumber'', JInt 4), (''armed'', JBool True), (''colorName'', JNull),
      (''flagged'', JBool False), (''notes'', JBool True)]"

definition retimedCue :: cue where
  "retimedCue =
     [(''name'', JString ''Go''), (''type'', JString ''Audio''),
      (''fileTarget'', JString ''c/d.wav''), (''duration'', JInt 7),
      (''cueTargetNumber'', JInt 6), (''armed'', JBool False), (''colorName'', JString ''none''),
      (''flagged'', JNull), (''notes'', JBool False)]"





















text \<open>
  A network on which every message can be sent, and the reply to each of the first three
  requests takes longer than 10 seconds; every other reply is there at once.
\<close>

definition slowNetwork :: network where
  \<open>slowNetwork =
     \<lparr>clientSend = (\<lambda>requestID. None),
      awaitReply = (\<lambda>requestID seconds.
        if requestID \<le> 3 \<and> seconds \<le> 10 then None else Some [JString ''{"status": "ok"}''])\<rparr>\<close>

section \<open>Conflict gating\<close>

text \<open>
  Claim C3. \<^verbatim>\<open>IdentifyConflicts\<close> returns the empty list of conflicts and no error
  whenever the live query gave no data, or there is no cache, or the cache matches the
  remote state, whatever the per-cue results and the scope tree hold.
\<close>

theorem conflict_gating:
  "\<not> HasQLabData comparison \<or> \<not> HasCache comparison \<or> CacheMatchesQLab comparison \<Longrightarrow>
   IdentifyConflicts L isFieldConflict comparison = Inr []"
  by (auto simp: IdentifyConflicts_def)

theorem conflict_gating_witness:
  "IdentifyConflicts plainLib (\<lambda>fc. True) (staleComparison True False False) = Inr [] \<and>
   IdentifyConflicts plainLib (\<lambda>fc. True) (staleComparison False True False) = Inr [] \<and>
   IdentifyConflicts plainLib (\<lambda>fc. True) (staleComparison True True True) = Inr []"
  using conflict_gating [of "staleComparison True False False" plainLib "\<lambda>fc. True"]
        conflict_gating [of "staleComparison False True False" plainLib "\<lambda>fc. True"]
        conflict_gating [of "staleComparison True True True" plainLib "\<lambda>fc. True"]
  by (simp add: staleComparison_def)

text \<open>The same results with all three gates open do give a conflict.\<close>

lemma ungated_comparison_has_conflict:
  "\<exists>c. IdentifyConflicts plainLib (\<lambda>fc. True) (staleComparison True True False) = Inr [c]"
  by (simp add: IdentifyConflicts_def staleComparison_def staleResult_def legacyConflict_def)

section \<open>Applying resolutions\<close>

lemma applyResolution_other:
  "fst entry \<noteq> k \<Longrightarrow>
   map_of (CueResults (applyResolution entry c)) k = map_of (CueResults c) k \<and>
   map_of (QLabChosenCues (applyResolution entry c)) k = map_of (QLabChosenCues c) k"
  by (cases entry) (auto simp: applyResolution_def update_conv' split: option.splits)

lemma ApplyResolutions_other:
  "k \<notin> fst ` set rs \<Longrightarrow>
   map_of (CueResults (fold applyResolution rs c)) k = map_of (CueResults c) k \<and>
   map_of (QLabChosenCues (fold applyResolution rs c)) k = map_of (QLabChosenCues c) k"
proof (induction rs arbitrary: c)
  case Nil
  show ?case by simp
next
  case (Cons entry rs)
  from Cons.prems have ne: "fst entry \<noteq> k" and rest: "k \<notin> fst ` set rs" by auto
  show ?case using Cons.IH [OF rest, of "applyResolution entry c"] applyResolution_other [OF ne, of c]
    by simp
qed

lemma applyResolution_here:
  assumes "map_of (CueResults c) k = Some result"
  shows "(choice = ChoiceKeepQLab \<longrightarrow>
            map_of (CueResults (applyResolution (k, choice) c)) k =
              Some (result\<lparr>Action := ''skip'', Reason := ''User chose to keep QLab version''\<rparr>) \<and>
            map_of (QLabChosenCues (applyResolution (k, choice) c)) k = Some True) \<and>
         (choice = ChoiceUseSource \<longrightarrow>
            map_of (CueResults (applyResolution (k, choice) c)) k =
              Some (result\<lparr>Action := ''update'', Reason := ''User chose to use source file version''\<rparr>) \<and>
            map_of (QLabChosenCues (applyResolution (k, choice) c)) k = map_of (QLabChosenCues c) k) \<and>
         (choice = ChoiceSkip \<longrightarrow>
            map_of (CueResults (applyResolution (k, choice) c)) k =
              Some (result\<lparr>Action := ''skip'', Reason := ''User chose to skip this cue''\<rparr>) \<and>
            map_of (QLabChosenCues (applyResolution (k, choice) c)) k = map_of (QLabChosenCues c) k)"
  using assms
  by (simp add: applyResolution_def update_conv' ChoiceKeepQLab_def ChoiceUseSource_def ChoiceSkip_def)

text \<open>
  Claim C6. For a key of the resolutions that has a result in the comparison,
  \<^verbatim>\<open>ApplyResolutions\<close> leaves: for the choice to keep the QLab version the action skip, its
  reason, and the key recorded as true in \<^verbatim>\<open>QLabChosenCues\<close>; for the choice to use the
  source the action update and its reason; for the choice to skip the action skip and its
  reason. The last two leave the entry of the key in \<^verbatim>\<open>QLabChosenCues\<close> as it was. The
  keys of a Go map are distinct.
\<close>

theorem apply_resolutions:
  assumes "distinct (map fst resolutions)"
      and "map_of resolutions cueNumber = Some choice"
      and "map_of (CueResults comparison) cueNumber = Some result"
  shows "(choice = ChoiceKeepQLab \<longrightarrow>
            map_of (CueResults (ApplyResolutions comparison resolutions)) cueNumber =
              Some (result\<lparr>Action := ''skip'', Reason := ''User chose to keep QLab version''\<rparr>) \<and>
            map_of (QLabChosenCues (ApplyResolutions comparison resolutions)) cueNumber = Some True) \<and>
         (choice = ChoiceUseSource \<longrightarrow>
            map_of (CueResults (ApplyResolutions comparison resolutions)) cueNumber =
              Some (result\<lparr>Action := ''update'', Reason := ''User chose to use source file version''\<rparr>) \<and>
            map_of (QLabChosenCues (ApplyResolutions comparison resolutions)) cueNumber =
              map_of (QLabChosenCues comparison) cueNumber) \<and>
         (choice = ChoiceSkip \<longrightarrow>
            map_of (CueResults (ApplyResolutions comparison resolutions)) cueNumber =
              Some (result\<lparr>Action := ''skip'', Reason := ''User chose to skip this cue''\<rparr>) \<and>
            map_of (QLabChosenCues (ApplyResolutions comparison resolutions)) cueNumber =
              map_of (QLabChosenCues comparison) cueNumber)"
  using assms unfolding ApplyResolutions_def
proof (induction resolutions arbitrary: comparison)
  case Nil
  then show ?case by simp
next
  case (Cons entry rs)
  obtain k ch where entry: "entry = (k, ch)" by (cases entry)
  show ?case
  proof (cases "k = cueNumber")
    case True
    with Cons.prems entry have ch: "ch = choice" and notin: "cueNumber \<notin> fst ` set rs" by auto
    from ApplyResolutions_other [OF notin, of "applyResolution (cueNumber, choice) comparison"]
         applyResolution_here [OF Cons.prems(3), of choice]
    show ?thesis using entry True ch by auto
  next
    case False
    with Cons.prems entry have d: "distinct (map fst rs)" and m: "map_of rs cueNumber = Some choice"
      by auto
    from False entry have ne: "fst entry \<noteq> cueNumber" by simp
    from applyResolution_other [OF ne, of comparison] Cons.prems(3)
    have r: "map_of (CueResults (applyResolution entry comparison)) cueNumber = Some result"
     and q: "map_of (QLabChosenCues (applyResolution entry comparison)) cueNumber =
             map_of (QLabChosenCues comparison) cueNumber" by simp_all
    from Cons.IH [OF d m r] q show ?thesis by simp
  qed
qed

theorem apply_resolutions_witness:
  "map_of (CueResults (ApplyResolutions threeResults threeChoices)) ''1'' =
     Some (staleResult\<lparr>Action := ''skip'', Reason := ''User chose to keep QLab version''\<rparr>) \<and>
   map_of (QLabChosenCues (ApplyResolutions threeResults threeChoices)) ''1'' = Some True \<and>
   map_of (CueResults (ApplyResolutions threeResults threeChoices)) ''2'' =
     Some (staleResult\<lparr>Action := ''update'', Reason := ''User chose to use source file version''\<rparr>) \<and>
   map_of (CueResults (ApplyResolutions threeResults threeChoices)) ''3'' =
     Some (staleResult\<lparr>Action := ''skip'', Reason := ''User chose to skip this cue''\<rparr>) \<and>
   map_of (QLabChosenCues (ApplyResolutions threeResults threeChoices)) ''3'' = None"
  using apply_resolutions [of threeChoices "''1''" ChoiceKeepQLab threeResults staleResult]
        apply_resolutions [of threeChoices "''2''" ChoiceUseSource threeResults staleResult]
        apply_resolutions [of threeChoices "''3''" ChoiceSkip threeResults staleResult]
  by (simp add: threeChoices_def threeResults_def ChoiceKeepQLab_def ChoiceUseSource_def ChoiceSkip_def)

section \<open>The index and the loops of the comparison\<close>

lemma update_fresh: "k \<notin> fst ` set al \<Longrightarrow> AList.update k v al = al @ [(k, v)]"
  by (induction al) auto

lemma distinct_indexEntry:
  "distinct (map fst idx) \<Longrightarrow> distinct (map fst (indexEntry L p i c idx))"
  by (simp add: indexEntry_def Let_def distinct_update)

lemma distinct_indexCuesRecursively:
  "distinct (map fst idx) \<Longrightarrow> distinct (map fst (indexCuesRecursively L cs p i idx))"
  by (induction L cs p i arbitrary: idx rule: indexCuesRecursively.induct)
     (auto split: json.splits option.splits simp: distinct_indexEntry)

lemma distinct_indexCuesFromWorkspace:
  "distinct (map fst (indexCuesFromWorkspace L ws))"
  by (simp add: indexCuesFromWorkspace_def Let_def distinct_indexCuesRecursively)

lemma keys_indexEntry: "fst ` set idx \<subseteq> fst ` set (indexEntry L p i c idx)"
  by (auto simp: indexEntry_def Let_def dom_update)

lemma keys_indexCuesRecursively:
  "fst ` set idx \<subseteq> fst ` set (indexCuesRecursively L cs p i idx)"
proof (induction L cs p i arbitrary: idx rule: indexCuesRecursively.induct)
  case (1 L parentNumber i)
  show ?case by simp
next
  case (2 L cueData rest parentNumber i)
  show ?case
  proof (cases cueData)
    case (JObject cue)
    show ?thesis
    proof (cases "\<exists>subCues. map_of cue ''cues'' = Some (JArray subCues)")
      case True
      then obtain subCues where sub: "map_of cue ''cues'' = Some (JArray subCues)" by blast
      have "fst ` set idx \<subseteq> fst ` set (indexEntry L parentNumber i cue idx)"
        by (rule keys_indexEntry)
      also have "\<dots> \<subseteq> fst ` set (indexCuesRecursively L subCues
                    (fullNumberOf parentNumber (cueNumberOf L cue)) 0
                    (indexEntry L parentNumber i cue idx))"
        using "2.IH"(2) [OF JObject sub refl] .
      also have "\<dots> \<subseteq> fst ` set (indexCuesRecursively L (cueData # rest) parentNumber i idx)"
        using "2.IH"(1) JObject sub by simp
      finally show ?thesis .
    next
      case False
      have "fst ` set idx \<subseteq> fst ` set (indexEntry L parentNumber i cue idx)"
        by (rule keys_indexEntry)
      also have "\<dots> \<subseteq> fst ` set (indexCuesRecursively L (cueData # rest) parentNumber i idx)"
        using "2.IH"(1) JObject False by (auto split: option.splits json.splits)
      finally show ?thesis .
    qed
  qed (use "2.IH"(1) in auto)
qed

lemma fold_update_map_of:
  "distinct (map fst xs) \<Longrightarrow>
   map_of (fold (\<lambda>(k, v). AList.update k (f k v)) xs acc) k =
     (case map_of xs k of Some v \<Rightarrow> Some (f k v) | None \<Rightarrow> map_of acc k)"
proof (induction xs arbitrary: acc)
  case Nil
  show ?case by simp
next
  case (Cons x xs)
  obtain k' v' where x: "x = (k', v')" by (cases x)
  from Cons.prems x have d: "distinct (map fst xs)" and notin: "k' \<notin> fst ` set xs" by auto
  from notin have none: "map_of xs k' = None" by (simp add: map_of_eq_None_iff)
  show ?case using Cons.IH [OF d, of "AList.update k' (f k' v') acc"] x none
    by (auto simp: update_conv' split: option.splits)
qed

lemma linkScope_verdict:
  "map_option verdict (map_of (linkScope cueScope results) k) = map_option verdict (map_of results k)"
  by (auto simp: linkScope_def update_conv' verdict_def split: option.splits)

lemma fold_linkScope_verdict:
  "map_option verdict (map_of (fold linkScope scopes results) k) = map_option verdict (map_of results k)"
  by (induction scopes arbitrary: results) (simp_all add: linkScope_verdict)

lemma linkScopeData_verdict:
  "map_option verdict (map_of (CueResults (linkScopeDataToCueResults c)) k) =
   map_option verdict (map_of (CueResults c) k)"
  by (simp add: linkScopeDataToCueResults_def fold_linkScope_verdict split: option.splits)

lemma linkScopeData_flags:
  "HasCache (linkScopeDataToCueResults c) = HasCache c \<and>
   HasQLabData (linkScopeDataToCueResults c) = HasQLabData c \<and>
   CacheMatchesQLab (linkScopeDataToCueResults c) = CacheMatchesQLab c"
  by (simp add: linkScopeDataToCueResults_def split: option.splits)

lemma PerformThreeWayComparison_result:
  assumes "map_of (indexCuesFromWorkspace L sourceCueData) cueNumber = Some sourceCue"
  shows "\<exists>comparison result.
           PerformThreeWayComparison L env sourceCueData = Inr comparison \<and>
           HasCache comparison = fst (loadCachedWorkspace env) \<and>
           HasQLabData comparison = fst (queryCurrent env) \<and>
           map_of (CueResults comparison) cueNumber = Some result \<and>
           verdict result =
             verdict (compareSourceCue L
                      (if fst (loadCachedWorkspace env)
                       then indexCuesFromWorkspace L (snd (loadCachedWorkspace env)) else [])
                      (if fst (queryCurrent env)
                       then indexCuesFromWorkspace L (snd (queryCurrent env)) else [])
                      cueNumber sourceCue)"
proof -
  let ?cached = "if fst (loadCachedWorkspace env)
                 then indexCuesFromWorkspace L (snd (loadCachedWorkspace env)) else []"
  let ?current = "if fst (queryCurrent env)
                  then indexCuesFromWorkspace L (snd (queryCurrent env)) else []"
  let ?results = "fold (\<lambda>(cueNumber, sourceCue).
                    AList.update cueNumber (compareSourceCue L ?cached ?current cueNumber sourceCue))
                    (indexCuesFromWorkspace L sourceCueData) []"
  have stored: "map_of ?results cueNumber =
                Some (compareSourceCue L ?cached ?current cueNumber sourceCue)"
    using fold_update_map_of [OF distinct_indexCuesFromWorkspace,
            where f = "compareSourceCue L ?cached ?current" and acc = "[]" and k = cueNumber
              and L1 = L and ws1 = sourceCueData] assms
    by simp
  obtain c0 where c0: "PerformThreeWayComparison L env sourceCueData = Inr (linkScopeDataToCueResults c0)"
    and r0: "CueResults c0 = ?results"
    and f0: "HasCache c0 = fst (loadCachedWorkspace env)" "HasQLabData c0 = fst (queryCurrent env)"
    by (simp add: PerformThreeWayComparison_def Let_def split_def)
  from linkScopeData_verdict [of c0 cueNumber] stored r0
  obtain result where "map_of (CueResults (linkScopeDataToCueResults c0)) cueNumber = Some result"
    and "verdict result = verdict (compareSourceCue L ?cached ?current cueNumber sourceCue)"
    by auto
  with c0 f0 linkScopeData_flags [of c0] show ?thesis by auto
qed

section \<open>The verdict for one cue\<close>

lemma distinct_compareProperty:
  "distinct (map fst d) \<Longrightarrow> distinct (map fst (compareProperty L a b p d))"
  by (simp add: compareProperty_def distinct_update)

lemma distinct_fold_compareProperty:
  "distinct (map fst d) \<Longrightarrow> distinct (map fst (fold (compareProperty L a b) ps d))"
  by (induction ps arbitrary: d) (simp_all add: distinct_compareProperty)

lemma distinct_compareCuePropertiesDetailed:
  "distinct (map fst (compareCuePropertiesDetailed L a b))"
  by (simp add: compareCuePropertiesDetailed_def distinct_fold_compareProperty)

lemma fold_update_prefix:
  "distinct (map fst xs) \<Longrightarrow> (\<forall>f \<in> fst ` set xs. p @ f \<notin> fst ` set acc) \<Longrightarrow>
   fold (\<lambda>(f, d). AList.update (p @ f) d) xs acc = acc @ map (\<lambda>(f, d). (p @ f, d)) xs"
proof (induction xs arbitrary: acc)
  case Nil
  show ?case by simp
next
  case (Cons x xs)
  obtain f d where x: "x = (f, d)" by (cases x)
  from Cons.prems x have fresh: "p @ f \<notin> fst ` set acc" by simp
  from Cons.prems x have d: "distinct (map fst xs)" and nf: "f \<notin> fst ` set xs" by auto
  have rest: "\<forall>f' \<in> fst ` set xs. p @ f' \<notin> fst ` set (acc @ [(p @ f, d)])"
    using Cons.prems(2) nf by auto
  show ?case using Cons.IH [OF d rest] x update_fresh [OF fresh, of d] by simp
qed

lemma mergeDiffs_append:
  assumes "distinct (map fst scd)" and "distinct (map fst ccd)"
  shows "mergeDiffs scd ccd =
           map (\<lambda>(f, d). (''source_vs_cache_'' @ f, d)) scd @
           map (\<lambda>(f, d). (''cache_vs_current_'' @ f, d)) ccd"
proof -
  have first: "fold (\<lambda>(f, d). AList.update (''source_vs_cache_'' @ f) d) scd [] =
               map (\<lambda>(f, d). (''source_vs_cache_'' @ f, d)) scd"
    using fold_update_prefix [OF assms(1), of "''source_vs_cache_''" "[]"] by simp
  have fresh: "\<forall>f \<in> fst ` set ccd. ''cache_vs_current_'' @ f
                 \<notin> fst ` set (map (\<lambda>(f, d). (''source_vs_cache_'' @ f, d)) scd)"
    by auto
  show ?thesis
    unfolding mergeDiffs_def first
    using fold_update_prefix [OF assms(2) fresh] by simp
qed

lemma compareSourceCue_absent:
  "map_of currentCues k = None \<Longrightarrow>
   verdict (compareSourceCue L cachedCues currentCues k sourceCue) =
     (True, ''create'', ''new cue'', [], [], [])"
  by (simp add: compareSourceCue_def verdict_def)

lemma compareSourceCue_three_way:
  assumes "map_of currentCues k = Some currentCue" and "map_of cachedCues k = Some cachedCue"
  shows "Action (compareSourceCue L cachedCues currentCues k sourceCue) =
           (if compareCuePropertiesDetailed L sourceCue cachedCue = [] \<and>
               compareCuePropertiesDetailed L cachedCue currentCue = [] then ''skip'' else ''update'')"
    and "Reason (compareSourceCue L cachedCues currentCues k sourceCue) =
           (if compareCuePropertiesDetailed L sourceCue cachedCue = [] then
              (if compareCuePropertiesDetailed L cachedCue currentCue = []
               then ''unchanged since last transmission''
               else ''QLab modified externally, reverting to source'')
            else
              (if compareCuePropertiesDetailed L cachedCue currentCue = []
               then ''source file modified'' else ''both source and QLab modified''))"
    and "ModifiedFields (compareSourceCue L cachedCues currentCues k sourceCue) =
           (if compareCuePropertiesDetailed L sourceCue cachedCue = [] then
              compareCuePropertiesDetailed L cachedCue currentCue
            else
              (if compareCuePropertiesDetailed L cachedCue currentCue = []
               then compareCuePropertiesDetailed L sourceCue cachedCue
               else mergeDiffs (compareCuePropertiesDetailed L sourceCue cachedCue)
                      (compareCuePropertiesDetailed L cachedCue currentCue)))"
  using assms by (simp_all add: compareSourceCue_def Let_def)

text \<open>
  Claim C2. When the live query fails, so that \<^verbatim>\<open>HasQLabData\<close> is false,
  \<^verbatim>\<open>PerformThreeWayComparison\<close> returns a comparison (the index of the current state is
  the empty map), and every key of the source index has a result with the action create
  and the reason "new cue", whatever the cache holds.
\<close>

theorem failed_query_creates:
  assumes "\<not> fst (queryCurrent env)"
      and "map_of (indexCuesFromWorkspace L sourceCueData) cueNumber = Some sourceCue"
  shows "\<exists>comparison result.
           PerformThreeWayComparison L env sourceCueData = Inr comparison \<and>
           \<not> HasQLabData comparison \<and>
           map_of (CueResults comparison) cueNumber = Some result \<and>
           Action result = ''create'' \<and> Reason result = ''new cue'' \<and>
           ModifiedFields result = []"
proof -
  from PerformThreeWayComparison_result [OF assms(2), of env]
  obtain comparison result where
    c: "PerformThreeWayComparison L env sourceCueData = Inr comparison"
      "HasQLabData comparison = fst (queryCurrent env)"
      "map_of (CueResults comparison) cueNumber = Some result"
    and v: "verdict result =
             verdict (compareSourceCue L
                      (if fst (loadCachedWorkspace env)
                       then indexCuesFromWorkspace L (snd (loadCachedWorkspace env)) else [])
                      (if fst (queryCurrent env)
                       then indexCuesFromWorkspace L (snd (queryCurrent env)) else [])
                      cueNumber sourceCue)"
    by blast
  from v assms(1) have "verdict result = (True, ''create'', ''new cue'', [], [], [])"
    by (simp add: compareSourceCue_absent)
  then have "Action result = ''create'' \<and> Reason result = ''new cue'' \<and> ModifiedFields result = []"
    by (simp add: verdict_def)
  with c assms(1) show ?thesis by auto
qed

text \<open>
  Claim C1. For a key that the source, the cache and the current tree all index, the
  result of \<^verbatim>\<open>PerformThreeWayComparison\<close> is decided by the two field diffs, source
  against cache and cache against current: both empty, skip, unchanged; only the second
  not empty, update because QLab was modified, with that diff; only the first not empty,
  update because the source was modified, with that diff; both not empty, update because
  both were modified, with the entries of the first under the prefix
  \<^verbatim>\<open>source_vs_cache_\<close> and those of the second under \<^verbatim>\<open>cache_vs_current_\<close>.
\<close>

theorem three_way_classification:
  assumes "loadCache env = Inr cachedWorkspace"
      and "queryCurrent env = (True, currentWorkspace)"
      and "map_of (indexCuesFromWorkspace L sourceCueData) cueNumber = Some sourceCue"
      and "map_of (indexCuesFromWorkspace L cachedWorkspace) cueNumber = Some cachedCue"
      and "map_of (indexCuesFromWorkspace L currentWorkspace) cueNumber = Some currentCue"
  shows "\<exists>comparison result.
           PerformThreeWayComparison L env sourceCueData = Inr comparison \<and>
           map_of (CueResults comparison) cueNumber = Some result \<and>
           (let sourceCacheDiffs = compareCuePropertiesDetailed L sourceCue cachedCue;
                cacheCurrentDiffs = compareCuePropertiesDetailed L cachedCue currentCue
            in (sourceCacheDiffs = [] \<and> cacheCurrentDiffs = [] \<longrightarrow>
                  Action result = ''skip'' \<and>
                  Reason result = ''unchanged since last transmission'' \<and>
                  ModifiedFields result = []) \<and>
               (sourceCacheDiffs = [] \<and> cacheCurrentDiffs \<noteq> [] \<longrightarrow>
                  Action result = ''update'' \<and>
                  Reason result = ''QLab modified externally, reverting to source'' \<and>
                  ModifiedFields result = cacheCurrentDiffs) \<and>
               (sourceCacheDiffs \<noteq> [] \<and> cacheCurrentDiffs = [] \<longrightarrow>
                  Action result = ''update'' \<and>
                  Reason result = ''source file modified'' \<and>
                  ModifiedFields result = sourceCacheDiffs) \<and>
               (sourceCacheDiffs \<noteq> [] \<and> cacheCurrentDiffs \<noteq> [] \<longrightarrow>
                  Action result = ''update'' \<and>
                  Reason result = ''both source and QLab modified'' \<and>
                  ModifiedFields result =
                    map (\<lambda>(field, diff). (''source_vs_cache_'' @ field, diff)) sourceCacheDiffs @
                    map (\<lambda>(field, diff). (''cache_vs_current_'' @ field, diff)) cacheCurrentDiffs))"
proof -
  from assms(1) have cache: "loadCachedWorkspace env = (True, cachedWorkspace)"
    by (simp add: loadCachedWorkspace_def)
  from PerformThreeWayComparison_result [OF assms(3), of env]
  obtain comparison result where
    c: "PerformThreeWayComparison L env sourceCueData = Inr comparison"
      "map_of (CueResults comparison) cueNumber = Some result"
    and v: "verdict result =
             verdict (compareSourceCue L (indexCuesFromWorkspace L cachedWorkspace)
                        (indexCuesFromWorkspace L currentWorkspace) cueNumber sourceCue)"
    using cache assms(2) by auto
  let ?r = "compareSourceCue L (indexCuesFromWorkspace L cachedWorkspace)
              (indexCuesFromWorkspace L currentWorkspace) cueNumber sourceCue"
  from v have same: "Action result = Action ?r" "Reason result = Reason ?r"
      "ModifiedFields result = ModifiedFields ?r"
    by (simp_all add: verdict_def)
  note three = compareSourceCue_three_way [OF assms(5) assms(4), of L sourceCue]
  note merged = mergeDiffs_append [OF distinct_compareCuePropertiesDetailed [of L sourceCue cachedCue]
                  distinct_compareCuePropertiesDetailed [of L cachedCue currentCue]]
  show ?thesis
    apply (rule exI [of _ comparison], rule exI [of _ result])
    apply (simp only: c same three Let_def merged)
    apply simp
    done
qed

subsection \<open>On the four cues\<close>

lemmas tree_defs = sourceTree_def cacheTree_def currentTree_def replyTree_def audioCue_def
  remoteAudioCue_def indexCuesFromWorkspace_def cuesOfCueList_def indexEntry_def cueNumberOf_def
  fullNumberOf_def plainLib_def Let_def

lemma index_sourceTree:
  "indexCuesFromWorkspace plainLib sourceTree =
     [(''1'', audioCue ''1'' ''A''), (''2'', audioCue ''2'' ''B''),
      (''3'', audioCue ''3'' ''C2''), (''4'', audioCue ''4'' ''D1'')]"
  by (simp add: tree_defs)

lemma index_replyTree:
  "indexCuesFromWorkspace plainLib (replyTree a b c d) =
     [(''1'', remoteAudioCue ''1'' a), (''2'', remoteAudioCue ''2'' b),
      (''3'', remoteAudioCue ''3'' c), (''4'', remoteAudioCue ''4'' d)]"
  by (simp add: tree_defs)

lemmas compare_defs = compareCuePropertiesDetailed_def compareProperty_def allProperties_def
  propertyDiffers_def normalized_def at_key_def normalizeProperty_def
  comparePropertyValues_def lower_ascii_def audioCue_def
  remoteAudioCue_def plainLib_def Let_def

lemma compare_source_remote:
  "compareCuePropertiesDetailed plainLib (audioCue n x) (remoteAudioCue n y) =
     (if x = y then [] else [(''name'', diffText x y)])"
  by (simp add: compare_defs)

lemma compare_remote_remote:
  "compareCuePropertiesDetailed plainLib (remoteAudioCue n x) (remoteAudioCue n y) =
     (if x = y then [] else [(''name'', diffText x y)])"
  by (simp add: compare_defs)

theorem failed_query_creates_witness:
  "\<exists>comparison result.
     PerformThreeWayComparison plainLib unreachable sourceTree = Inr comparison \<and>
     \<not> HasQLabData comparison \<and>
     map_of (indexCuesFromWorkspace plainLib cacheTree) ''2'' = Some (remoteAudioCue ''2'' ''B'') \<and>
     map_of (CueResults comparison) ''2'' = Some result \<and>
     Action result = ''create'' \<and> Reason result = ''new cue''"
proof -
  have q: "\<not> fst (queryCurrent unreachable)"
    by (simp add: queryCurrent_def unreachable_def)
  have s: "map_of (indexCuesFromWorkspace plainLib sourceTree) ''2'' = Some (audioCue ''2'' ''B'')"
    by (simp add: index_sourceTree)
  have c: "map_of (indexCuesFromWorkspace plainLib cacheTree) ''2'' = Some (remoteAudioCue ''2'' ''B'')"
    by (simp add: cacheTree_def index_replyTree)
  from failed_query_creates [OF q s] c show ?thesis by blast
qed

theorem three_way_classification_witness:
  "\<exists>comparison r1 r2 r3 r4.
     PerformThreeWayComparison plainLib reachable sourceTree = Inr comparison \<and>
     map_of (CueResults comparison) ''1'' = Some r1 \<and>
     Action r1 = ''skip'' \<and> Reason r1 = ''unchanged since last transmission'' \<and>
     ModifiedFields r1 = [] \<and>
     map_of (CueResults comparison) ''2'' = Some r2 \<and>
     Action r2 = ''update'' \<and> Reason r2 = ''QLab modified externally, reverting to source'' \<and>
     ModifiedFields r2 = [(''name'', diffText ''B'' ''B2'')] \<and>
     map_of (CueResults comparison) ''3'' = Some r3 \<and>
     Action r3 = ''update'' \<and> Reason r3 = ''source file modified'' \<and>
     ModifiedFields r3 = [(''name'', diffText ''C2'' ''C'')] \<and>
     map_of (CueResults comparison) ''4'' = Some r4 \<and>
     Action r4 = ''update'' \<and> Reason r4 = ''both source and QLab modified'' \<and>
     ModifiedFields r4 = [(''source_vs_cache_name'', diffText ''D1'' ''D''),
                          (''cache_vs_current_name'', diffText ''D'' ''D2'')]"
proof -
  have cache: "loadCache reachable = Inr cacheTree"
    by (simp add: reachable_def)
  have query: "queryCurrent reachable = (True, currentTree)"
    by (simp add: queryCurrent_def reachable_def)
  note idx = index_sourceTree cacheTree_def currentTree_def index_replyTree
  have k1: "map_of (indexCuesFromWorkspace plainLib sourceTree) ''1'' = Some (audioCue ''1'' ''A'')"
           "map_of (indexCuesFromWorkspace plainLib cacheTree) ''1'' = Some (remoteAudioCue ''1'' ''A'')"
           "map_of (indexCuesFromWorkspace plainLib currentTree) ''1'' = Some (remoteAudioCue ''1'' ''A'')"
    by (simp_all add: idx)
  have k2: "map_of (indexCuesFromWorkspace plainLib sourceTree) ''2'' = Some (audioCue ''2'' ''B'')"
           "map_of (indexCuesFromWorkspace plainLib cacheTree) ''2'' = Some (remoteAudioCue ''2'' ''B'')"
           "map_of (indexCuesFromWorkspace plainLib currentTree) ''2'' = Some (remoteAudioCue ''2'' ''B2'')"
    by (simp_all add: idx)
  have k3: "map_of (indexCuesFromWorkspace plainLib sourceTree) ''3'' = Some (audioCue ''3'' ''C2'')"
           "map_of (indexCuesFromWorkspace plainLib cacheTree) ''3'' = Some (remoteAudioCue ''3'' ''C'')"
           "map_of (indexCuesFromWorkspace plainLib currentTree) ''3'' = Some (remoteAudioCue ''3'' ''C'')"
    by (simp_all add: idx)
  have k4: "map_of (indexCuesFromWorkspace plainLib sourceTree) ''4'' = Some (audioCue ''4'' ''D1'')"
           "map_of (indexCuesFromWorkspace plainLib cacheTree) ''4'' = Some (remoteAudioCue ''4'' ''D'')"
           "map_of (indexCuesFromWorkspace plainLib currentTree) ''4'' = Some (remoteAudioCue ''4'' ''D2'')"
    by (simp_all add: idx)
  note cmp = compare_source_remote compare_remote_remote Let_def
  from three_way_classification [OF cache query k1]
       three_way_classification [OF cache query k2]
       three_way_classification [OF cache query k3]
       three_way_classification [OF cache query k4]
  show ?thesis by (auto simp: cmp)
qed

section \<open>The field-level comparator\<close>

lemma compareProperty_map_of:
  "map_of (compareProperty L a b q acc) p =
     (if p = q \<and> propertyDiffers L a b q
      then Some (diffText (normalized L a q) (normalized L b q)) else map_of acc p)"
  by (simp add: compareProperty_def update_conv')

lemma fold_compareProperty_map_of:
  "distinct ps \<Longrightarrow>
   map_of (fold (compareProperty L a b) ps acc) p =
     (if p \<in> set ps \<and> propertyDiffers L a b p
      then Some (diffText (normalized L a p) (normalized L b p)) else map_of acc p)"
proof (induction ps arbitrary: acc)
  case Nil
  show ?case by simp
next
  case (Cons q ps)
  then have d: "distinct ps" and nq: "q \<notin> set ps" by auto
  show ?case using Cons.IH [OF d, of "compareProperty L a b q acc"] nq
    by (auto simp: compareProperty_map_of)
qed

lemma compareCuePropertiesDetailed_map_of:
  "map_of (compareCuePropertiesDetailed L a b) p =
     (if p \<in> set allProperties \<and> propertyDiffers L a b p
      then Some (diffText (normalized L a p) (normalized L b p)) else None)"
proof -
  have "distinct allProperties" by (simp add: allProperties_def)
  from fold_compareProperty_map_of [OF this, of L a b "[]" p]
  show ?thesis by (simp add: compareCuePropertiesDetailed_def)
qed

text \<open>
  Claim C4. \<^verbatim>\<open>compareCuePropertiesDetailed\<close> reports under no other name than the nine
  of its list. The value of a property is the empty string for a key that is missing or
  nil, the string itself, a float printed with \<^verbatim>\<open>%g\<close>, an integer with \<^verbatim>\<open>%d\<close>, a
  boolean as true or false. It never reports armed or flagged. A duration is not reported
  when the two values are equal or are "0" and the empty string; a type when the two
  values are equal or \<^verbatim>\<open>strings.EqualFold\<close> holds of them; a color name when the two
  values are equal or are the empty string and "none". The file target and the cue target
  number are not reported when one of the cues lacks the key; with both keys, the cue
  target number is reported unless the values are equal, and the file target unless the
  values are equal or are both not empty with the same base name. A name and the notes
  are reported unless the values are equal. Every report has the form 'old' -> 'new'.
\<close>

theorem field_equivalence_policy:
  fixes L :: golib and cue1 cue2 :: cue
  shows "allProperties = [''name'', ''type'', ''fileTarget'', ''duration'', ''cueTargetNumber'',
                          ''armed'', ''colorName'', ''flagged'', ''notes''] \<and>
    fst ` set (compareCuePropertiesDetailed L cue1 cue2) \<subseteq> set allProperties \<and>
    (\<forall>cue prop. normalized L cue prop =
       (case map_of cue prop of
          None \<Rightarrow> []
        | Some JNull \<Rightarrow> []
        | Some (JString s) \<Rightarrow> s
        | Some (JFloat f) \<Rightarrow> sprintf_g L f
        | Some (JInt i) \<Rightarrow> show_int i
        | Some (JBool b) \<Rightarrow> (if b then ''true'' else ''false'')
        | Some v \<Rightarrow> sprintf_v L v)) \<and>
    map_of (compareCuePropertiesDetailed L cue1 cue2) ''armed'' = None \<and>
    map_of (compareCuePropertiesDetailed L cue1 cue2) ''flagged'' = None \<and>
    (map_of (compareCuePropertiesDetailed L cue1 cue2) ''duration'' = None \<longleftrightarrow>
       normalized L cue1 ''duration'' = normalized L cue2 ''duration'' \<or>
       (normalized L cue1 ''duration'' = ''0'' \<and> normalized L cue2 ''duration'' = []) \<or>
       (normalized L cue1 ''duration'' = [] \<and> normalized L cue2 ''duration'' = ''0'')) \<and>
    (map_of (compareCuePropertiesDetailed L cue1 cue2) ''type'' = None \<longleftrightarrow>
       normalized L cue1 ''type'' = normalized L cue2 ''type'' \<or>
       EqualFold L (normalized L cue1 ''type'') (normalized L cue2 ''type'')) \<and>
    (map_of (compareCuePropertiesDetailed L cue1 cue2) ''colorName'' = None \<longleftrightarrow>
       normalized L cue1 ''colorName'' = normalized L cue2 ''colorName'' \<or>
       (normalized L cue1 ''colorName'' = [] \<and> normalized L cue2 ''colorName'' = ''none'') \<or>
       (normalized L cue1 ''colorName'' = ''none'' \<and> normalized L cue2 ''colorName'' = [])) \<and>
    (map_of (compareCuePropertiesDetailed L cue1 cue2) ''fileTarget'' = None \<longleftrightarrow>
       map_of cue1 ''fileTarget'' = None \<or> map_of cue2 ''fileTarget'' = None \<or>
       normalized L cue1 ''fileTarget'' = normalized L cue2 ''fileTarget'' \<or>
       (normalized L cue1 ''fileTarget'' \<noteq> [] \<and> normalized L cue2 ''fileTarget'' \<noteq> [] \<and>
        Base (normalized L cue1 ''fileTarget'') = Base (normalized L cue2 ''fileTarget''))) \<and>
    (map_of (compareCuePropertiesDetailed L cue1 cue2) ''cueTargetNumber'' = None \<longleftrightarrow>
       map_of cue1 ''cueTargetNumber'' = None \<or> map_of cue2 ''cueTargetNumber'' = None \<or>
       normalized L cue1 ''cueTargetNumber'' = normalized L cue2 ''cueTargetNumber'') \<and>
    (map_of (compareCuePropertiesDetailed L cue1 cue2) ''name'' = None \<longleftrightarrow>
       normalized L cue1 ''name'' = normalized L cue2 ''name'') \<and>
    (map_of (compareCuePropertiesDetailed L cue1 cue2) ''notes'' = None \<longleftrightarrow>
       normalized L cue1 ''notes'' = normalized L cue2 ''notes'') \<and>
    (\<forall>prop report. map_of (compareCuePropertiesDetailed L cue1 cue2) prop = Some report \<longrightarrow>
       report = [CHR 0x27] @ normalized L cue1 prop @ [CHR 0x27] @ '' -> '' @
                [CHR 0x27] @ normalized L cue2 prop @ [CHR 0x27])"
proof -
  note m = compareCuePropertiesDetailed_map_of [of L cue1 cue2]
  have props: "allProperties = [''name'', ''type'', ''fileTarget'', ''duration'', ''cueTargetNumber'',
                            ''armed'', ''colorName'', ''flagged'', ''notes'']"
    by (simp add: allProperties_def)
  have keys: "fst ` set (compareCuePropertiesDetailed L cue1 cue2) \<subseteq> set allProperties"
  proof
    fix p assume "p \<in> fst ` set (compareCuePropertiesDetailed L cue1 cue2)"
    then have "map_of (compareCuePropertiesDetailed L cue1 cue2) p \<noteq> None"
      by (simp add: map_of_eq_None_iff)
    with m [of p] show "p \<in> set allProperties" by (auto split: if_splits)
  qed
  have vals: "(\<forall>cue prop. normalized L cue prop =
         (case map_of cue prop of
            None \<Rightarrow> []
          | Some JNull \<Rightarrow> []
          | Some (JString s) \<Rightarrow> s
          | Some (JFloat f) \<Rightarrow> sprintf_g L f
          | Some (JInt i) \<Rightarrow> show_int i
          | Some (JBool b) \<Rightarrow> (if b then ''true'' else ''false'')
          | Some v \<Rightarrow> sprintf_v L v))"
    by (simp add: normalized_def at_key_def normalizeProperty_def split: option.splits json.splits)
  have armed: "map_of (compareCuePropertiesDetailed L cue1 cue2) ''armed'' = None"
    by (simp add: m propertyDiffers_def comparePropertyValues_def Let_def)
  have flagged: "map_of (compareCuePropertiesDetailed L cue1 cue2) ''flagged'' = None"
    by (simp add: m propertyDiffers_def comparePropertyValues_def Let_def)
  have duration: "(map_of (compareCuePropertiesDetailed L cue1 cue2) ''duration'' = None \<longleftrightarrow>
         normalized L cue1 ''duration'' = normalized L cue2 ''duration'' \<or>
         (normalized L cue1 ''duration'' = ''0'' \<and> normalized L cue2 ''duration'' = []) \<or>
         (normalized L cue1 ''duration'' = [] \<and> normalized L cue2 ''duration'' = ''0''))"
    by (auto simp: m props propertyDiffers_def comparePropertyValues_def Let_def)
  have type: "(map_of (compareCuePropertiesDetailed L cue1 cue2) ''type'' = None \<longleftrightarrow>
         normalized L cue1 ''type'' = normalized L cue2 ''type'' \<or>
         EqualFold L (normalized L cue1 ''type'') (normalized L cue2 ''type''))"
    by (auto simp: m props propertyDiffers_def comparePropertyValues_def Let_def)
  have color: "(map_of (compareCuePropertiesDetailed L cue1 cue2) ''colorName'' = None \<longleftrightarrow>
         normalized L cue1 ''colorName'' = normalized L cue2 ''colorName'' \<or>
         (normalized L cue1 ''colorName'' = [] \<and> normalized L cue2 ''colorName'' = ''none'') \<or>
         (normalized L cue1 ''colorName'' = ''none'' \<and> normalized L cue2 ''colorName'' = []))"
    by (auto simp: m props propertyDiffers_def comparePropertyValues_def Let_def)
  have fileT: "(map_of (compareCuePropertiesDetailed L cue1 cue2) ''fileTarget'' = None \<longleftrightarrow>
         map_of cue1 ''fileTarget'' = None \<or> map_of cue2 ''fileTarget'' = None \<or>
         normalized L cue1 ''fileTarget'' = normalized L cue2 ''fileTarget'' \<or>
         (normalized L cue1 ''fileTarget'' \<noteq> [] \<and> normalized L cue2 ''fileTarget'' \<noteq> [] \<and>
          Base (normalized L cue1 ''fileTarget'') = Base (normalized L cue2 ''fileTarget'')))"
    by (auto simp: m props propertyDiffers_def comparePropertyValues_def Let_def)
  have target: "(map_of (compareCuePropertiesDetailed L cue1 cue2) ''cueTargetNumber'' = None \<longleftrightarrow>
         map_of cue1 ''cueTargetNumber'' = None \<or> map_of cue2 ''cueTargetNumber'' = None \<or>
         normalized L cue1 ''cueTargetNumber'' = normalized L cue2 ''cueTargetNumber'')"
    by (auto simp: m props propertyDiffers_def comparePropertyValues_def Let_def)
  have name: "(map_of (compareCuePropertiesDetailed L cue1 cue2) ''name'' = None \<longleftrightarrow>
         normalized L cue1 ''name'' = normalized L cue2 ''name'')"
    by (auto simp: m props propertyDiffers_def comparePropertyValues_def Let_def)
  have notesT: "(map_of (compareCuePropertiesDetailed L cue1 cue2) ''notes'' = None \<longleftrightarrow>
         normalized L cue1 ''notes'' = normalized L cue2 ''notes'')"
    by (auto simp: m props propertyDiffers_def comparePropertyValues_def Let_def)
  have format: "(\<forall>prop report. map_of (compareCuePropertiesDetailed L cue1 cue2) prop = Some report \<longrightarrow>
         report = [CHR 0x27] @ normalized L cue1 prop @ [CHR 0x27] @ '' -> '' @
                  [CHR 0x27] @ normalized L cue2 prop @ [CHR 0x27])"
    by (auto simp: m diffText_def split: if_splits)
  from props keys vals armed flagged duration type color fileT target name notesT format
  show ?thesis by blast
qed

lemmas value_defs = normalized_def at_key_def normalizeProperty_def leftCue_def rightCue_def
  plainLib_def lower_ascii_def Base_def

theorem field_equivalence_policy_witness:
  "map_of (compareCuePropertiesDetailed plainLib leftCue rightCue) ''armed'' = None \<and>
   map_of (compareCuePropertiesDetailed plainLib leftCue rightCue) ''flagged'' = None \<and>
   map_of (compareCuePropertiesDetailed plainLib leftCue rightCue) ''duration'' = None \<and>
   map_of (compareCuePropertiesDetailed plainLib leftCue rightCue) ''type'' = None \<and>
   map_of (compareCuePropertiesDetailed plainLib leftCue rightCue) ''colorName'' = None \<and>
   map_of (compareCuePropertiesDetailed plainLib leftCue rightCue) ''fileTarget'' = None \<and>
   map_of (compareCuePropertiesDetailed plainLib leftCue rightCue) ''cueTargetNumber'' = None \<and>
   map_of (compareCuePropertiesDetailed plainLib leftCue rightCue) ''notes'' = None \<and>
   map_of (compareCuePropertiesDetailed plainLib leftCue rightCue) ''name'' =
     Some ([CHR 0x27] @ ''A'' @ [CHR 0x27] @ '' -> '' @ [CHR 0x27] @ ''B'' @ [CHR 0x27]) \<and>
   map_of (compareCuePropertiesDetailed plainLib meteredCue retimedCue) ''armed'' = None \<and>
   map_of (compareCuePropertiesDetailed plainLib meteredCue retimedCue) ''flagged'' = None \<and>
   map_of (compareCuePropertiesDetailed plainLib meteredCue retimedCue) ''colorName'' = None \<and>
   map_of (compareCuePropertiesDetailed plainLib meteredCue retimedCue) ''duration'' =
     Some ([CHR 0x27] @ ''2.5'' @ [CHR 0x27] @ '' -> '' @ [CHR 0x27] @ ''7'' @ [CHR 0x27]) \<and>
   map_of (compareCuePropertiesDetailed plainLib meteredCue retimedCue) ''notes'' =
     Some ([CHR 0x27] @ ''true'' @ [CHR 0x27] @ '' -> '' @ [CHR 0x27] @ ''false'' @ [CHR 0x27]) \<and>
   map_of (compareCuePropertiesDetailed plainLib meteredCue retimedCue) ''cueTargetNumber'' =
     Some ([CHR 0x27] @ ''4'' @ [CHR 0x27] @ '' -> '' @ [CHR 0x27] @ ''6'' @ [CHR 0x27]) \<and>
   map_of (compareCuePropertiesDetailed plainLib meteredCue retimedCue) ''fileTarget'' =
     Some ([CHR 0x27] @ ''a/b.wav'' @ [CHR 0x27] @ '' -> '' @ [CHR 0x27] @ ''c/d.wav'' @ [CHR 0x27])"
proof -
  let ?D = "compareCuePropertiesDetailed plainLib leftCue rightCue"
  let ?E = "compareCuePropertiesDetailed plainLib meteredCue retimedCue"
  note policy = field_equivalence_policy [of plainLib leftCue rightCue]
  note metered = field_equivalence_policy [of plainLib meteredCue retimedCue]
  have vals:
    "normalized plainLib leftCue ''name'' = ''A''" "normalized plainLib rightCue ''name'' = ''B''"
    "normalized plainLib leftCue ''type'' = ''Audio''" "normalized plainLib rightCue ''type'' = ''audio''"
    "normalized plainLib leftCue ''duration'' = ''0''" "normalized plainLib rightCue ''duration'' = []"
    "normalized plainLib leftCue ''colorName'' = []" "normalized plainLib rightCue ''colorName'' = ''none''"
    "normalized plainLib leftCue ''notes'' = ''fade in''" "normalized plainLib rightCue ''notes'' = ''fade in''"
    "normalized plainLib leftCue ''fileTarget'' = ''/shows/intro/door.wav''"
    "normalized plainLib rightCue ''fileTarget'' = ''/Users/operator/door.wav''"
    "map_of rightCue ''cueTargetNumber'' = None"
    by (simp_all add: value_defs)
  have fold: "EqualFold plainLib ''Audio'' ''audio''"
    by (simp add: plainLib_def lower_ascii_def)
  have base: "Base ''/shows/intro/door.wav'' = Base ''/Users/operator/door.wav''"
    by (simp add: Base_def)
  from policy have armed: "map_of ?D ''armed'' = None" by (elim conjE)
  from policy have flagged: "map_of ?D ''flagged'' = None" by (elim conjE)
  from policy have "map_of ?D ''duration'' = None \<longleftrightarrow>
       normalized plainLib leftCue ''duration'' = normalized plainLib rightCue ''duration'' \<or>
       (normalized plainLib leftCue ''duration'' = ''0'' \<and> normalized plainLib rightCue ''duration'' = []) \<or>
       (normalized plainLib leftCue ''duration'' = [] \<and> normalized plainLib rightCue ''duration'' = ''0'')"
    by (elim conjE)
  then have duration: "map_of ?D ''duration'' = None" by (simp add: vals)
  from policy have "map_of ?D ''type'' = None \<longleftrightarrow>
       normalized plainLib leftCue ''type'' = normalized plainLib rightCue ''type'' \<or>
       EqualFold plainLib (normalized plainLib leftCue ''type'') (normalized plainLib rightCue ''type'')"
    by (elim conjE)
  then have type: "map_of ?D ''type'' = None" by (simp add: vals fold)
  from policy have "map_of ?D ''colorName'' = None \<longleftrightarrow>
       normalized plainLib leftCue ''colorName'' = normalized plainLib rightCue ''colorName'' \<or>
       (normalized plainLib leftCue ''colorName'' = [] \<and> normalized plainLib rightCue ''colorName'' = ''none'') \<or>
       (normalized plainLib leftCue ''colorName'' = ''none'' \<and> normalized plainLib rightCue ''colorName'' = [])"
    by (elim conjE)
  then have color: "map_of ?D ''colorName'' = None" by (simp add: vals)
  from policy have "map_of ?D ''fileTarget'' = None \<longleftrightarrow>
       map_of leftCue ''fileTarget'' = None \<or> map_of rightCue ''fileTarget'' = None \<or>
       normalized plainLib leftCue ''fileTarget'' = normalized plainLib rightCue ''fileTarget'' \<or>
       (normalized plainLib leftCue ''fileTarget'' \<noteq> [] \<and> normalized plainLib rightCue ''fileTarget'' \<noteq> [] \<and>
        Base (normalized plainLib leftCue ''fileTarget'') = Base (normalized plainLib rightCue ''fileTarget''))"
    by (elim conjE)
  then have fileT: "map_of ?D ''fileTarget'' = None" by (simp add: vals base)
  from policy have "map_of ?D ''cueTargetNumber'' = None \<longleftrightarrow>
       map_of leftCue ''cueTargetNumber'' = None \<or> map_of rightCue ''cueTargetNumber'' = None \<or>
       normalized plainLib leftCue ''cueTargetNumber'' = normalized plainLib rightCue ''cueTargetNumber''"
    by (elim conjE)
  then have target: "map_of ?D ''cueTargetNumber'' = None" by (simp add: vals)
  from policy have "map_of ?D ''notes'' = None \<longleftrightarrow>
       normalized plainLib leftCue ''notes'' = normalized plainLib rightCue ''notes''"
    by (elim conjE)
  then have notesT: "map_of ?D ''notes'' = None" by (simp add: vals)
  from policy have "map_of ?D ''name'' = None \<longleftrightarrow>
       normalized plainLib leftCue ''name'' = normalized plainLib rightCue ''name''"
    by (elim conjE)
  then have "map_of ?D ''name'' \<noteq> None" by (simp add: vals)
  then obtain report where r: "map_of ?D ''name'' = Some report" by (cases "map_of ?D ''name''") auto
  from policy have "\<forall>prop report. map_of ?D prop = Some report \<longrightarrow>
       report = [CHR 0x27] @ normalized plainLib leftCue prop @ [CHR 0x27] @ '' -> '' @
                [CHR 0x27] @ normalized plainLib rightCue prop @ [CHR 0x27]"
    by (elim conjE)
  with r have "report = [CHR 0x27] @ normalized plainLib leftCue ''name'' @ [CHR 0x27] @ '' -> '' @
                [CHR 0x27] @ normalized plainLib rightCue ''name'' @ [CHR 0x27]"
    by blast
  with r have name: "map_of ?D ''name'' =
     Some ([CHR 0x27] @ ''A'' @ [CHR 0x27] @ '' -> '' @ [CHR 0x27] @ ''B'' @ [CHR 0x27])"
    by (simp add: vals)
  from metered have printed: "\<forall>cue prop. normalized plainLib cue prop =
       (case map_of cue prop of
          None \<Rightarrow> []
        | Some JNull \<Rightarrow> []
        | Some (JString s) \<Rightarrow> s
        | Some (JFloat f) \<Rightarrow> sprintf_g plainLib f
        | Some (JInt i) \<Rightarrow> show_int i
        | Some (JBool b) \<Rightarrow> (if b then ''true'' else ''false'')
        | Some v \<Rightarrow> sprintf_v plainLib v)"
    by (elim conjE)
  have digits: "show_int 4 = ''4''" "show_int 6 = ''6''" "show_int 7 = ''7''"
    by (simp_all add: show_int_def show_nat.simps [of 4] show_nat.simps [of 6] show_nat.simps [of 7]
          digit_char_def)
  have vals2:
    "normalized plainLib meteredCue ''duration'' = ''2.5''" "normalized plainLib retimedCue ''duration'' = ''7''"
    "normalized plainLib meteredCue ''notes'' = ''true''" "normalized plainLib retimedCue ''notes'' = ''false''"
    "normalized plainLib meteredCue ''cueTargetNumber'' = ''4''"
    "normalized plainLib retimedCue ''cueTargetNumber'' = ''6''"
    "normalized plainLib meteredCue ''colorName'' = []" "normalized plainLib retimedCue ''colorName'' = ''none''"
    "normalized plainLib meteredCue ''fileTarget'' = ''a/b.wav''"
    "normalized plainLib retimedCue ''fileTarget'' = ''c/d.wav''"
    by (simp_all add: printed meteredCue_def retimedCue_def digits) (simp add: plainLib_def)
  have keys2: "map_of meteredCue ''fileTarget'' \<noteq> None" "map_of retimedCue ''fileTarget'' \<noteq> None"
    "map_of meteredCue ''cueTargetNumber'' \<noteq> None" "map_of retimedCue ''cueTargetNumber'' \<noteq> None"
    by (simp_all add: meteredCue_def retimedCue_def)
  have base2: "Base ''a/b.wav'' \<noteq> Base ''c/d.wav''"
    by (simp add: Base_def)
  from metered have form: "\<forall>prop report. map_of ?E prop = Some report \<longrightarrow>
       report = [CHR 0x27] @ normalized plainLib meteredCue prop @ [CHR 0x27] @ '' -> '' @
                [CHR 0x27] @ normalized plainLib retimedCue prop @ [CHR 0x27]"
    by (elim conjE)
  have reported: "map_of ?E field =
       Some ([CHR 0x27] @ normalized plainLib meteredCue field @ [CHR 0x27] @ '' -> '' @
             [CHR 0x27] @ normalized plainLib retimedCue field @ [CHR 0x27])"
    if "map_of ?E field \<noteq> None" for field
  proof -
    from that obtain report where r: "map_of ?E field = Some report" by (cases "map_of ?E field") auto
    with form show ?thesis by blast
  qed
  from metered have armed2: "map_of ?E ''armed'' = None" by (elim conjE)
  from metered have flagged2: "map_of ?E ''flagged'' = None" by (elim conjE)
  from metered have "map_of ?E ''colorName'' = None \<longleftrightarrow>
       normalized plainLib meteredCue ''colorName'' = normalized plainLib retimedCue ''colorName'' \<or>
       (normalized plainLib meteredCue ''colorName'' = [] \<and> normalized plainLib retimedCue ''colorName'' = ''none'') \<or>
       (normalized plainLib meteredCue ''colorName'' = ''none'' \<and> normalized plainLib retimedCue ''colorName'' = [])"
    by (elim conjE)
  then have color2: "map_of ?E ''colorName'' = None" by (simp add: vals2)
  from metered have "map_of ?E ''duration'' = None \<longleftrightarrow>
       normalized plainLib meteredCue ''duration'' = normalized plainLib retimedCue ''duration'' \<or>
       (normalized plainLib meteredCue ''duration'' = ''0'' \<and> normalized plainLib retimedCue ''duration'' = []) \<or>
       (normalized plainLib meteredCue ''duration'' = [] \<and> normalized plainLib retimedCue ''duration'' = ''0'')"
    by (elim conjE)
  then have "map_of ?E ''duration'' \<noteq> None" by (simp add: vals2)
  from reported [OF this] have duration2: "map_of ?E ''duration'' =
     Some ([CHR 0x27] @ ''2.5'' @ [CHR 0x27] @ '' -> '' @ [CHR 0x27] @ ''7'' @ [CHR 0x27])"
    by (simp add: vals2)
  from metered have "map_of ?E ''notes'' = None \<longleftrightarrow>
       normalized plainLib meteredCue ''notes'' = normalized plainLib retimedCue ''notes''"
    by (elim conjE)
  then have "map_of ?E ''notes'' \<noteq> None" by (simp add: vals2)
  from reported [OF this] have notes2: "map_of ?E ''notes'' =
     Some ([CHR 0x27] @ ''true'' @ [CHR 0x27] @ '' -> '' @ [CHR 0x27] @ ''false'' @ [CHR 0x27])"
    by (simp add: vals2)
  from metered have "map_of ?E ''cueTargetNumber'' = None \<longleftrightarrow>
       map_of meteredCue ''cueTargetNumber'' = None \<or> map_of retimedCue ''cueTargetNumber'' = None \<or>
       normalized plainLib meteredCue ''cueTargetNumber'' = normalized plainLib retimedCue ''cueTargetNumber''"
    by (elim conjE)
  then have "map_of ?E ''cueTargetNumber'' \<noteq> None" by (simp add: vals2 keys2)
  from reported [OF this] have target2: "map_of ?E ''cueTargetNumber'' =
     Some ([CHR 0x27] @ ''4'' @ [CHR 0x27] @ '' -> '' @ [CHR 0x27] @ ''6'' @ [CHR 0x27])"
    by (simp add: vals2)
  from metered have "map_of ?E ''fileTarget'' = None \<longleftrightarrow>
       map_of meteredCue ''fileTarget'' = None \<or> map_of retimedCue ''fileTarget'' = None \<or>
       normalized plainLib meteredCue ''fileTarget'' = normalized plainLib retimedCue ''fileTarget'' \<or>
       (normalized plainLib meteredCue ''fileTarget'' \<noteq> [] \<and> normalized plainLib retimedCue ''fileTarget'' \<noteq> [] \<and>
        Base (normalized plainLib meteredCue ''fileTarget'') = Base (normalized plainLib retimedCue ''fileTarget''))"
    by (elim conjE)
  then have "map_of ?E ''fileTarget'' \<noteq> None" using base2 by (simp add: vals2 keys2)
  from reported [OF this] have file2: "map_of ?E ''fileTarget'' =
     Some ([CHR 0x27] @ ''a/b.wav'' @ [CHR 0x27] @ '' -> '' @ [CHR 0x27] @ ''c/d.wav'' @ [CHR 0x27])"
    by (simp add: vals2)
  from armed flagged duration type color fileT target notesT name
       armed2 flagged2 color2 duration2 notes2 target2 file2
  show ?thesis by (intro conjI)
qed

lemma compare_left_right:
  "compareCuePropertiesDetailed plainLib leftCue rightCue = [(''name'', diffText ''A'' ''B'')]"
  by (simp add: compareCuePropertiesDetailed_def compareProperty_def allProperties_def
        propertyDiffers_def comparePropertyValues_def value_defs Let_def)

section \<open>Identity keys\<close>

lemma digit_char_digit: "n < 10 \<Longrightarrow> digit_char n \<in> set ''0123456789''"
proof -
  assume "n < 10"
  then have "n \<in> {0, 1, 2, 3, 4, 5, 6, 7, 8, 9}" by auto
  then show ?thesis by (auto simp: digit_char_def)
qed

lemma show_nat_digits: "set (show_nat n) \<subseteq> set ''0123456789''"
proof (induction n rule: show_nat.induct)
  case (1 n)
  show ?case
  proof (cases "n < 10")
    case True
    then show ?thesis using digit_char_digit [of n] by (subst show_nat.simps) simp
  next
    case False
    have "n mod 10 < 10" by simp
    from digit_char_digit [OF this] "1.IH" [OF False] False
    show ?thesis by (subst show_nat.simps) simp
  qed
qed

lemma show_nat_nonempty: "show_nat n \<noteq> []"
  by (subst show_nat.simps) simp

lemma show_nat_no_dot: "CHR ''.'' \<notin> set (show_nat n)"
  using show_nat_digits [of n] by auto

lemma show_int_no_dot: "CHR ''.'' \<notin> set (show_int i)"
  by (simp add: show_int_def show_nat_no_dot)

lemma show_int_nonempty: "show_int i \<noteq> []"
  by (simp add: show_int_def show_nat_nonempty)

lemma Contains_single: "Contains s [c] \<longleftrightarrow> c \<in> set s"
  by (induction s) auto

lemma indexEntry_identityKey:
  "indexEntry L p i c idx =
     (case identityKey L p i c of Some k \<Rightarrow> AList.update k c idx | None \<Rightarrow> idx)"
  by (simp add: indexEntry_def identityKey_def Let_def)

lemma identityKey_indexed:
  "identityKey L p i c = Some k \<Longrightarrow> k \<in> fst ` set (indexEntry L p i c idx)"
  by (simp add: indexEntry_identityKey dom_update)


lemma index_step:
  "indexCuesRecursively L (JObject c # rest) p i idx =
     indexCuesRecursively L rest p (Suc i)
       (case map_of c ''cues'' of
          Some (JArray subCues) \<Rightarrow>
            indexCuesRecursively L subCues (fullNumberOf p (cueNumberOf L c)) 0 (indexEntry L p i c idx)
        | _ \<Rightarrow> indexEntry L p i c idx)"
  by simp

lemma index_skip:
  "(\<nexists>c. x = JObject c) \<Longrightarrow>
   indexCuesRecursively L (x # rest) p i idx = indexCuesRecursively L rest p (Suc i) idx"
  by (cases x) auto

lemma index_cons_keys:
  "\<exists>idx'. indexCuesRecursively L (x # rest) p i idx = indexCuesRecursively L rest p (Suc i) idx' \<and>
          fst ` set idx \<subseteq> fst ` set idx'"
proof (cases x)
  case (JObject c)
  let ?e = "indexEntry L p i c idx"
  have e: "fst ` set idx \<subseteq> fst ` set ?e" by (rule keys_indexEntry)
  show ?thesis
  proof (cases "\<exists>subCues. map_of c ''cues'' = Some (JArray subCues)")
    case True
    then obtain subCues where sub: "map_of c ''cues'' = Some (JArray subCues)" by blast
    let ?s = "indexCuesRecursively L subCues (fullNumberOf p (cueNumberOf L c)) 0 ?e"
    have "fst ` set ?e \<subseteq> fst ` set ?s" by (rule keys_indexCuesRecursively)
    with e have "fst ` set idx \<subseteq> fst ` set ?s" by blast
    moreover have "indexCuesRecursively L (x # rest) p i idx = indexCuesRecursively L rest p (Suc i) ?s"
      using JObject sub by simp
    ultimately show ?thesis by blast
  next
    case False
    then have "indexCuesRecursively L (x # rest) p i idx = indexCuesRecursively L rest p (Suc i) ?e"
      using JObject by (auto split: option.splits json.splits)
    with e show ?thesis by blast
  qed
next
qed (auto intro: exI [of _ idx])

text \<open>The cue at position j of the array is stored, and its key is still there at the end.\<close>

lemma index_here:
  "j < length cs \<Longrightarrow> cs ! j = JObject c \<Longrightarrow> identityKey L p (i + j) c = Some k \<Longrightarrow>
   k \<in> fst ` set (indexCuesRecursively L cs p i idx)"
proof (induction cs arbitrary: i j idx)
  case Nil
  then show ?case by simp
next
  case (Cons x rest)
  show ?case
  proof (cases j)
    case 0
    with Cons.prems have x: "x = JObject c" and key: "identityKey L p i c = Some k" by simp_all
    let ?e = "indexEntry L p i c idx"
    have ke: "k \<in> fst ` set ?e" using key by (rule identityKey_indexed)
    let ?after = "case map_of c ''cues'' of
          Some (JArray subCues) \<Rightarrow>
            indexCuesRecursively L subCues (fullNumberOf p (cueNumberOf L c)) 0 ?e
        | _ \<Rightarrow> ?e"
    have "k \<in> fst ` set ?after"
    proof (cases "\<exists>subCues. map_of c ''cues'' = Some (JArray subCues)")
      case True
      then obtain subCues where sub: "map_of c ''cues'' = Some (JArray subCues)" by blast
      from ke keys_indexCuesRecursively [of ?e L subCues "fullNumberOf p (cueNumberOf L c)" 0]
      show ?thesis unfolding sub by auto
    next
      case False
      with ke show ?thesis by (auto split: option.splits json.splits)
    qed
    then have "k \<in> fst ` set (indexCuesRecursively L rest p (Suc i) ?after)"
      using keys_indexCuesRecursively by blast
    then show ?thesis unfolding x index_step .
  next
    case (Suc j')
    with Cons.prems have j': "j' < length rest" and at: "rest ! j' = JObject c"
      and key: "identityKey L p (Suc i + j') c = Some k" by simp_all
    from index_cons_keys [of L x rest p i idx] obtain idx' where
      "indexCuesRecursively L (x # rest) p i idx = indexCuesRecursively L rest p (Suc i) idx'" by blast
    with Cons.IH [OF j' at key, of idx'] show ?thesis by simp
  qed
qed

text \<open>What the index of the sub-cues of the cue at position j holds is still there at the end.\<close>

lemma index_below:
  "j < length cs \<Longrightarrow> cs ! j = JObject parent \<Longrightarrow> map_of parent ''cues'' = Some (JArray subCues) \<Longrightarrow>
   (\<And>idx'. k \<in> fst ` set (indexCuesRecursively L subCues (fullNumberOf p (cueNumberOf L parent)) 0 idx')) \<Longrightarrow>
   k \<in> fst ` set (indexCuesRecursively L cs p i idx)"
proof (induction cs arbitrary: i j idx)
  case Nil
  then show ?case by simp
next
  case (Cons x rest)
  show ?case
  proof (cases j)
    case 0
    with Cons.prems have x: "x = JObject parent" by simp
    let ?s = "indexCuesRecursively L subCues (fullNumberOf p (cueNumberOf L parent)) 0
                (indexEntry L p i parent idx)"
    have "k \<in> fst ` set ?s" by (rule Cons.prems(4))
    then have "k \<in> fst ` set (indexCuesRecursively L rest p (Suc i) ?s)"
      using keys_indexCuesRecursively by blast
    then show ?thesis unfolding x index_step using Cons.prems(3) by simp
  next
    case (Suc j')
    with Cons.prems have j': "j' < length rest" and at: "rest ! j' = JObject parent" by simp_all
    from index_cons_keys [of L x rest p i idx] obtain idx' where
      "indexCuesRecursively L (x # rest) p i idx = indexCuesRecursively L rest p (Suc i) idx'" by blast
    with Cons.IH [OF j' at Cons.prems(3) Cons.prems(4), of "Suc i" idx'] show ?thesis by simp
  qed
qed

lemma cue_at_indexed:
  "cue_at L cs parentNumber c p j \<Longrightarrow> identityKey L p j c = Some k \<Longrightarrow>
   k \<in> fst ` set (indexCuesRecursively L cs parentNumber 0 idx)"
proof (induction arbitrary: idx rule: cue_at.induct)
  case (here j cuesData cue parentNumber)
  from index_here [OF here(1) here(2), of L parentNumber 0 k idx] here(3) show ?case by simp
next
  case (below i cuesData parent subCues parentNumber cue p j)
  from index_below [OF below(1) below(2) below(3), of k L parentNumber 0 idx] below(5) [OF below(6)]
  show ?case by blast
qed

lemma show_nat_small: "n < 10 \<Longrightarrow> show_nat n = [digit_char n]"
  by (subst show_nat.simps) simp












lemma top_level_key:
  "identityKey L [] 0 c = Some k \<Longrightarrow>
   k \<in> fst ` set (indexCuesFromWorkspace L [(''cues'', JArray [JObject c])])"
proof -
  assume key: "identityKey L [] 0 c = Some k"
  have "cue_at L [JObject c] [] c [] 0" by (rule cue_at.here) simp_all
  from cue_at_indexed [OF this key, of "[]"] show ?thesis
    by (simp add: indexCuesFromWorkspace_def)
qed

lemma whole_0_999_nat: "whole_0_999 (FNum r) \<longleftrightarrow> (\<exists>n::nat. n \<le> 999 \<and> r = of_nat n)"
proof
  assume w: "whole_0_999 (FNum r)"
  then have r: "r = of_int \<lfloor>r\<rfloor>" and lo: "0 \<le> r" and hi: "r \<le> 999" by simp_all
  from lo have "0 \<le> \<lfloor>r\<rfloor>" by simp
  then have "of_nat (nat \<lfloor>r\<rfloor>) = (of_int \<lfloor>r\<rfloor> :: rat)" by simp
  with r have eq: "r = of_nat (nat \<lfloor>r\<rfloor>)" by simp
  from r hi have "(of_int \<lfloor>r\<rfloor> :: rat) \<le> 999" by simp
  then have "\<lfloor>r\<rfloor> \<le> 999" by simp
  then have "nat \<lfloor>r\<rfloor> \<le> 999" by arith
  with eq show "\<exists>n::nat. n \<le> 999 \<and> r = of_nat n" by blast
next
  assume "\<exists>n::nat. n \<le> 999 \<and> r = of_nat n"
  then obtain n :: nat where "n \<le> 999" and "r = of_nat n" by blast
  then show "whole_0_999 (FNum r)" by simp
qed

lemma sprintf_1f_shape:
  "whole_0_999 v \<Longrightarrow>
   \<exists>sign digits. sprintf_1f v = sign @ digits @ ''.0'' \<and> (sign = [] \<or> sign = ''-'') \<and>
                 digits \<noteq> [] \<and> set digits \<subseteq> set ''0123456789''"
proof (cases v)
  case (FNum r)
  have "sprintf_1f (FNum r) = [] @ show_nat (nat \<lfloor>r\<rfloor>) @ ''.0''" by simp
  with show_nat_nonempty show_nat_digits FNum show ?thesis by blast
next
  case FNegZero
  have "sprintf_1f FNegZero = ''-'' @ ''0'' @ ''.0''" by simp
  moreover have "set ''0'' \<subseteq> set ''0123456789''" by simp
  ultimately show ?thesis using FNegZero by blast
qed simp_all

text \<open>
  Claim C5. A top-level cue whose number is the string "1.0" or the float 1.0 (which is
  the float 1.00000) is indexed under the key "1.0", and one whose number is the integer
  3 under "3". In general the number of a float that is whole and between 0 and 999 is
  printed with one decimal place, a zero; any other float is printed with \<^verbatim>\<open>%g\<close>; an
  integer is printed without a point. The source shape and the reply shape of a tree are
  indexed by the same function, and the comparison looks a key of the source up in the
  indexes that this function builds from the cache and from the current state.
\<close>

theorem numeric_format_keys:
  "''1.0'' \<in> fst ` set (indexCuesFromWorkspace L
              [(''cues'', JArray [JObject ((''number'', JString ''1.0'') # rest)])]) \<and>
   ''1.0'' \<in> fst ` set (indexCuesFromWorkspace L
              [(''cues'', JArray [JObject ((''number'', JFloat (FNum 1)) # rest)])]) \<and>
   ''3'' \<in> fst ` set (indexCuesFromWorkspace L
              [(''cues'', JArray [JObject ((''number'', JInt 3) # rest)])]) \<and>
   (whole_0_999 v \<longrightarrow>
      cueNumberOf L ((''number'', JFloat v) # rest) = sprintf_1f v \<and>
      (\<exists>sign digits. sprintf_1f v = sign @ digits @ ''.0'' \<and> (sign = [] \<or> sign = ''-'') \<and>
                     digits \<noteq> [] \<and> set digits \<subseteq> set ''0123456789'')) \<and>
   (\<not> whole_0_999 v \<longrightarrow> cueNumberOf L ((''number'', JFloat v) # rest) = sprintf_g L v) \<and>
   (whole_0_999 (FNum r) \<longleftrightarrow> (\<exists>n::nat. n \<le> 999 \<and> r = of_nat n)) \<and>
   cueNumberOf L ((''number'', JInt i) # rest) = show_int i \<and>
   CHR ''.'' \<notin> set (show_int i) \<and>
   indexCuesFromWorkspace L [(''cues'', JArray cuesData)] = indexCuesRecursively L cuesData [] 0 [] \<and>
   indexCuesFromWorkspace L [(''data'', JArray [JObject [(''cues'', JArray cuesData)]])] =
     indexCuesRecursively L cuesData [] 0 [] \<and>
   (loadCache env = Inr cachedWorkspace \<and> queryCurrent env = (True, currentWorkspace) \<and>
    map_of (indexCuesFromWorkspace L sourceCueData) cueNumber = Some sourceCue \<longrightarrow>
      (\<exists>comparison result.
         PerformThreeWayComparison L env sourceCueData = Inr comparison \<and>
         map_of (CueResults comparison) cueNumber = Some result \<and>
         verdict result =
           verdict (compareSourceCue L (indexCuesFromWorkspace L cachedWorkspace)
                      (indexCuesFromWorkspace L currentWorkspace) cueNumber sourceCue)))"
proof -
  have s: "''1.0'' \<in> fst ` set (indexCuesFromWorkspace L
              [(''cues'', JArray [JObject ((''number'', JString ''1.0'') # rest)])])"
    by (rule top_level_key) (simp add: identityKey_def cueNumberOf_def fullNumberOf_def)
  have one: "show_nat (Suc 0) = ''1''"
    by (subst show_nat.simps) (simp add: digit_char_def)
  have f: "''1.0'' \<in> fst ` set (indexCuesFromWorkspace L
              [(''cues'', JArray [JObject ((''number'', JFloat (FNum 1)) # rest)])])"
    by (rule top_level_key) (simp add: identityKey_def cueNumberOf_def fullNumberOf_def one)
  have three: "show_int 3 = ''3''"
    by (simp add: show_int_def show_nat_small digit_char_def)
  have i: "''3'' \<in> fst ` set (indexCuesFromWorkspace L
              [(''cues'', JArray [JObject ((''number'', JInt 3) # rest)])])"
    by (rule top_level_key) (simp add: identityKey_def cueNumberOf_def fullNumberOf_def three)
  have w: "whole_0_999 v \<longrightarrow>
      cueNumberOf L ((''number'', JFloat v) # rest) = sprintf_1f v \<and>
      (\<exists>sign digits. sprintf_1f v = sign @ digits @ ''.0'' \<and> (sign = [] \<or> sign = ''-'') \<and>
                     digits \<noteq> [] \<and> set digits \<subseteq> set ''0123456789'')"
    using sprintf_1f_shape [of v] by (simp add: cueNumberOf_def)
  have g: "\<not> whole_0_999 v \<longrightarrow> cueNumberOf L ((''number'', JFloat v) # rest) = sprintf_g L v"
    by (simp add: cueNumberOf_def)
  have d: "cueNumberOf L ((''number'', JInt i) # rest) = show_int i"
    by (simp add: cueNumberOf_def)
  have shape1: "indexCuesFromWorkspace L [(''cues'', JArray cuesData)] =
                indexCuesRecursively L cuesData [] 0 []"
    by (simp add: indexCuesFromWorkspace_def)
  have shape2: "indexCuesFromWorkspace L [(''data'', JArray [JObject [(''cues'', JArray cuesData)]])] =
                indexCuesRecursively L cuesData [] 0 []"
    by (simp add: indexCuesFromWorkspace_def cuesOfCueList_def)
  have three_trees:
    "loadCache env = Inr cachedWorkspace \<and> queryCurrent env = (True, currentWorkspace) \<and>
     map_of (indexCuesFromWorkspace L sourceCueData) cueNumber = Some sourceCue \<longrightarrow>
      (\<exists>comparison result.
         PerformThreeWayComparison L env sourceCueData = Inr comparison \<and>
         map_of (CueResults comparison) cueNumber = Some result \<and>
         verdict result =
           verdict (compareSourceCue L (indexCuesFromWorkspace L cachedWorkspace)
                      (indexCuesFromWorkspace L currentWorkspace) cueNumber sourceCue))"
  proof (intro impI, elim conjE)
    assume c: "loadCache env = Inr cachedWorkspace" and q: "queryCurrent env = (True, currentWorkspace)"
       and m: "map_of (indexCuesFromWorkspace L sourceCueData) cueNumber = Some sourceCue"
    from c have "loadCachedWorkspace env = (True, cachedWorkspace)"
      by (simp add: loadCachedWorkspace_def)
    with PerformThreeWayComparison_result [OF m, of env] q
    show "\<exists>comparison result.
         PerformThreeWayComparison L env sourceCueData = Inr comparison \<and>
         map_of (CueResults comparison) cueNumber = Some result \<and>
         verdict result =
           verdict (compareSourceCue L (indexCuesFromWorkspace L cachedWorkspace)
                      (indexCuesFromWorkspace L currentWorkspace) cueNumber sourceCue)"
      by auto
  qed
  from s f i w g whole_0_999_nat [of r] d show_int_no_dot [of i] shape1 shape2 three_trees
  show ?thesis by (intro conjI)
qed

lemma show_nat_42: "show_nat 42 = ''42''"
  by (simp add: show_nat.simps [of 42] show_nat.simps [of 4] digit_char_def)

lemma show_int_minus_7: "show_int (- 7) = ''-7''"
  by (simp add: show_int_def show_nat.simps [of 7] digit_char_def)

theorem numeric_format_keys_witness:
  "cueNumberOf plainLib [(''number'', JFloat (FNum 42))] = ''42.0'' \<and>
   cueNumberOf plainLib [(''number'', JFloat FNegZero)] = ''-0.0'' \<and>
   cueNumberOf plainLib [(''number'', JFloat (FNum (3 / 2)))] = sprintf_g plainLib (FNum (3 / 2)) \<and>
   cueNumberOf plainLib [(''number'', JInt (- 7))] = ''-7'' \<and>
   (\<exists>comparison result.
      PerformThreeWayComparison plainLib reachable sourceTree = Inr comparison \<and>
      map_of (CueResults comparison) ''1'' = Some result \<and>
      verdict result =
        verdict (compareSourceCue plainLib (indexCuesFromWorkspace plainLib cacheTree)
                   (indexCuesFromWorkspace plainLib currentTree) ''1'' (audioCue ''1'' ''A'')))"
proof -
  have half: "\<lfloor>3 / 2 :: rat\<rfloor> = 1"
    by (rule floor_unique) simp_all
  have w: "whole_0_999 (FNum 42)" "whole_0_999 FNegZero" "\<not> whole_0_999 (FNum (3 / 2))"
    by (simp_all add: half)
  have env: "loadCache reachable = Inr cacheTree \<and> queryCurrent reachable = (True, currentTree) \<and>
    map_of (indexCuesFromWorkspace plainLib sourceTree) ''1'' = Some (audioCue ''1'' ''A'')"
    by (simp add: reachable_def queryCurrent_def index_sourceTree)
  from numeric_format_keys [of plainLib "[]" "FNum 42" 0 "- 7" "[]" reachable cacheTree currentTree
         sourceTree "''1''" "audioCue ''1'' ''A''"]
       numeric_format_keys [of plainLib "[]" "FNegZero" 0 0 "[]" reachable cacheTree currentTree
         sourceTree "''1''" "audioCue ''1'' ''A''"]
       numeric_format_keys [of plainLib "[]" "FNum (3 / 2)" 0 0 "[]" reachable cacheTree currentTree
         sourceTree "''1''" "audioCue ''1'' ''A''"]
       w env
  show ?thesis by (simp add: show_nat_42 show_int_minus_7)
qed






section \<open>The mutation pass\<close>

lemma positionKey_nonempty: "positionKey p i t n \<noteq> []"
  by (simp add: positionKey_def)





text \<open>An error of a sub-cue, whatever it is, comes out of the parent and of the pass.\<close>

lemma sub_cue_error_propagates:
  "processCue L R changeResults subCue fullNumber [] (int childIndex) st = (Inl err, st') \<Longrightarrow>
   processSubCues L R changeResults (JObject subCue # rest) fullNumber uniqueID childIndex st =
     (Some (''error processing sub-cue '' @ show_int (int childIndex) @ '': '' @ err), st')"
  by (simp del: processCue.simps)

lemma sub_cue_error_skips:
  "processSubCues L R changeResults rest fullNumber uniqueID (Suc childIndex) st = (Some err, st') \<Longrightarrow>
   (\<nexists>c. x = JObject c) \<Longrightarrow>
   processSubCues L R changeResults (x # rest) fullNumber uniqueID childIndex st = (Some err, st')"
  by (cases x) (auto simp del: processCue.simps)

lemma parent_returns_sub_cue_error:
  "beginCue L R changeResults cueData parentNumber cueIndex st = (Proceed uniqueID, st1) \<Longrightarrow>
   settleCue R cueData (fullNumberOf parentNumber (cueNumberOf L cueData)) parentUniqueID uniqueID st1 = (None, st2) \<Longrightarrow>
   map_of cueData ''cues'' = Some (JArray subCues) \<Longrightarrow> uniqueID \<noteq> [] \<Longrightarrow>
   processSubCues L R changeResults subCues (fullNumberOf parentNumber (cueNumberOf L cueData)) uniqueID 0 st2
     = (Some err, st3) \<Longrightarrow>
   processCue L R changeResults cueData parentNumber parentUniqueID cueIndex st = (Inl err, st3)"
  by (simp add: Let_def)

lemma pass_returns_cue_error:
  "processCue L R changeResults cueData [] [] (- 1) st = (Inl err, st') \<Longrightarrow>
   processTopLevel L R changeResults (JObject cueData # rest) st =
     (Some (''failed to process cue: '' @ err), st')"
  by (simp del: processCue.simps)



section \<open>Request and reply\<close>

lemma awaits_append: "awaits (xs @ ys) = awaits xs @ awaits ys"
  by (induction xs rule: awaits.induct) simp_all

lemma sleeps_append: "sleeps (xs @ ys) = sleeps xs @ sleeps ys"
  by (induction xs rule: sleeps.induct) simp_all

lemma notifyDisconnect_log:
  "awaits (events (notifyDisconnect q)) = awaits (events q) \<and>
   sleeps (events (notifyDisconnect q)) = sleeps (events q)"
  by (simp add: notifyDisconnect_def emit_def awaits_append sleeps_append)

lemma sendAttempts_timeout:
  "\<forall>k. attempt \<le> k \<and> k \<le> retries \<longrightarrow>
        awaitReply N (requestCounter q + 1 + (k - attempt)) (if timeout q = 0 then 10 else timeout q) = None \<Longrightarrow>
   fst (sendAttempts N address input args retries attempt q) = timeoutReply"
proof (induction N address input args retries attempt q rule: sendAttempts.induct)
  case (1 N address input args retries attempt q)
  show ?case
  proof (cases "attempt \<le> retries")
    case False
    then show ?thesis by (subst sendAttempts.simps) simp
  next
    case True
    let ?id = "requestCounter q + 1"
    let ?q1 = "emit [Listen address ?id] (q\<lparr>requestCounter := ?id\<rparr>)"
    let ?s = "if timeout ?q1 = 0 then 10 else timeout ?q1"
    let ?q2 = "emit [Send address ((if input \<noteq> [] then [JString input] else []) @ args), Await ?id ?s] ?q1"
    let ?q3 = "emit [Unlisten address ?id] ?q2"
    have s: "?s = (if timeout q = 0 then 10 else timeout q)" by (simp add: emit_def)
    have later: "\<forall>k. attempt + 1 \<le> k \<and> k \<le> retries \<longrightarrow>
        awaitReply N (requestCounter q' + 1 + (k - (attempt + 1))) (if timeout q' = 0 then 10 else timeout q') = None"
      if "requestCounter q' = ?id" and "timeout q' = timeout q" for q'
    proof (intro allI impI)
      fix k assume k: "attempt + 1 \<le> k \<and> k \<le> retries"
      then have "attempt \<le> k \<and> k \<le> retries" by simp
      with "1.prems" have quiet: "awaitReply N (requestCounter q + 1 + (k - attempt))
                             (if timeout q = 0 then 10 else timeout q) = None" by blast
      have shift: "requestCounter q' + 1 + (k - (attempt + 1)) = requestCounter q + 1 + (k - attempt)"
        using that by simp
      show "awaitReply N (requestCounter q' + 1 + (k - (attempt + 1)))
                         (if timeout q' = 0 then 10 else timeout q') = None"
        unfolding shift that(2) by (rule quiet)
    qed
    show ?thesis
    proof (cases "clientSend N ?id")
      case (Some err)
      have "requestCounter ?q1 = ?id" "timeout ?q1 = timeout q" by (simp_all add: emit_def)
      from "1.IH"(2) [OF True refl refl refl Some later [OF this]] True Some
      show ?thesis by (subst sendAttempts.simps) (simp add: Let_def)
    next
      case None
      from "1.prems" True have "awaitReply N (requestCounter q + 1 + (attempt - attempt))
                                  (if timeout q = 0 then 10 else timeout q) = None" by blast
      then have nr: "awaitReply N ?id ?s = None" by (simp add: s)
      show ?thesis
      proof (cases "attempt < retries")
        case less: True
        have "requestCounter (emit [Sleep 100] ?q3) = ?id" "timeout (emit [Sleep 100] ?q3) = timeout q"
          by (simp_all add: emit_def)
        from "1.IH"(1) [OF True refl refl refl None refl refl nr refl less later [OF this]] True None nr less
        show ?thesis by (subst sendAttempts.simps) (simp add: Let_def)
      next
        case False
        with True None nr show ?thesis by (subst sendAttempts.simps) (simp add: Let_def)
      qed
    qed
  qed
qed

lemma sendAttempts_log:
  "\<forall>k. attempt \<le> k \<and> k \<le> retries \<longrightarrow>
        awaitReply N (requestCounter q + 1 + (k - attempt)) (if timeout q = 0 then 10 else timeout q) = None \<Longrightarrow>
   \<forall>k. attempt \<le> k \<and> k \<le> retries \<longrightarrow> clientSend N (requestCounter q + 1 + (k - attempt)) = None \<Longrightarrow>
   attempt \<le> retries \<Longrightarrow>
   awaits (events (snd (sendAttempts N address input args retries attempt q))) =
     awaits (events q) @ replicate (nat (retries - attempt) + 1) (if timeout q = 0 then 10 else timeout q) \<and>
   sleeps (events (snd (sendAttempts N address input args retries attempt q))) =
     sleeps (events q) @ replicate (nat (retries - attempt)) 100"
proof (induction N address input args retries attempt q rule: sendAttempts.induct)
  case (1 N address input args retries attempt q)
  let ?id = "requestCounter q + 1"
  let ?q1 = "emit [Listen address ?id] (q\<lparr>requestCounter := ?id\<rparr>)"
  let ?s = "if timeout ?q1 = 0 then 10 else timeout ?q1"
  let ?q2 = "emit [Send address ((if input \<noteq> [] then [JString input] else []) @ args), Await ?id ?s] ?q1"
  let ?q3 = "emit [Unlisten address ?id] ?q2"
  let ?q' = "emit [Sleep 100] ?q3"
  have le: "attempt \<le> retries" by (rule "1.prems"(3))
  from "1.prems"(2) le have "clientSend N (requestCounter q + 1 + (attempt - attempt)) = None" by blast
  then have sent: "clientSend N ?id = None" by simp
  have s: "?s = (if timeout q = 0 then 10 else timeout q)" by (simp add: emit_def)
  from "1.prems"(1) le have "awaitReply N (requestCounter q + 1 + (attempt - attempt))
                               (if timeout q = 0 then 10 else timeout q) = None" by blast
  then have nr: "awaitReply N ?id ?s = None" by (simp add: s)
  show ?case
  proof (cases "attempt < retries")
    case True
    then have next_le: "attempt + 1 \<le> retries" by simp
    have q': "requestCounter ?q' = ?id" "timeout ?q' = timeout q" by (simp_all add: emit_def)
    have shift: "requestCounter ?q' + 1 + (k - (attempt + 1)) = requestCounter q + 1 + (k - attempt)" for k
      by (simp add: emit_def)
    have later: "\<forall>k. attempt + 1 \<le> k \<and> k \<le> retries \<longrightarrow>
        awaitReply N (requestCounter ?q' + 1 + (k - (attempt + 1)))
          (if timeout ?q' = 0 then 10 else timeout ?q') = None"
    proof (intro allI impI)
      fix k assume "attempt + 1 \<le> k \<and> k \<le> retries"
      then have "attempt \<le> k \<and> k \<le> retries" by simp
      with "1.prems"(1) have "awaitReply N (requestCounter q + 1 + (k - attempt))
                                (if timeout q = 0 then 10 else timeout q) = None" by blast
      then show "awaitReply N (requestCounter ?q' + 1 + (k - (attempt + 1)))
                   (if timeout ?q' = 0 then 10 else timeout ?q') = None"
        unfolding shift q'(2) .
    qed
    have later_sent: "\<forall>k. attempt + 1 \<le> k \<and> k \<le> retries \<longrightarrow>
        clientSend N (requestCounter ?q' + 1 + (k - (attempt + 1))) = None"
    proof (intro allI impI)
      fix k assume "attempt + 1 \<le> k \<and> k \<le> retries"
      then have "attempt \<le> k \<and> k \<le> retries" by simp
      with "1.prems"(2) have "clientSend N (requestCounter q + 1 + (k - attempt)) = None" by blast
      then show "clientSend N (requestCounter ?q' + 1 + (k - (attempt + 1))) = None"
        unfolding shift .
    qed
    from "1.IH"(1) [OF le refl refl refl sent refl refl nr refl True later later_sent next_le]
    have ih: "awaits (events (snd (sendAttempts N address input args retries (attempt + 1) ?q'))) =
                awaits (events ?q') @
                replicate (nat (retries - (attempt + 1)) + 1) (if timeout q = 0 then 10 else timeout q)"
      and ih2: "sleeps (events (snd (sendAttempts N address input args retries (attempt + 1) ?q'))) =
                sleeps (events ?q') @ replicate (nat (retries - (attempt + 1))) 100"
      by (simp_all add: emit_def)
    have unfold: "sendAttempts N address input args retries attempt q =
                  sendAttempts N address input args retries (attempt + 1) ?q'"
      using le sent nr True by (subst sendAttempts.simps) (simp add: Let_def)
    from True have n: "nat (retries - attempt) = Suc (nat (retries - (attempt + 1)))" by simp
    have a: "awaits (events ?q') =
             awaits (events q) @ [if timeout q = 0 then 10 else timeout q]"
      by (simp add: emit_def awaits_append)
    have b: "sleeps (events ?q') = sleeps (events q) @ [100]"
      by (simp add: emit_def sleeps_append)
    show ?thesis unfolding unfold ih ih2 a b n by (simp add: replicate_app_Cons_same)
  next
    case False
    with le have eq: "attempt = retries" by simp
    have unfold: "snd (sendAttempts N address input args retries attempt q) =
                  (let q4 = ?q3\<lparr>consecutiveErrors := consecutiveErrors ?q3 + 1\<rparr>
                   in if connection.wasConnected q4 then notifyDisconnect q4 else q4)"
      using le sent nr False by (subst sendAttempts.simps) (simp add: Let_def)
    show ?thesis unfolding unfold
      by (simp add: Let_def notifyDisconnect_log eq) (simp add: emit_def awaits_append sleeps_append)
  qed
qed

text \<open>
  Claim C9. Each attempt of a request has an ID of its own, one more than the attempt
  before, and waits for the timeout of the workspace, or for 10 seconds where that is 0.
  When no reply to any of these IDs arrives within that time, on the first attempt and
  on every retry, \<^verbatim>\<open>sendWithRetry\<close> returns the payload of the one string
  \<^verbatim>\<open>{"status": "error", "error": "timeout waiting for reply from QLab"}\<close>, which is
  not nil; it is a total function, so there is no other way out. This holds as well when
  the client fails to send, and when the number of retries is negative. When every message
  could be sent and the number of retries is not negative, the caller has waited once more
  than that number, each time for that timeout, and has slept 100 milliseconds between
  two attempts. \<^verbatim>\<open>NewWorkspace\<close> sets no retries and a timeout of 10.
\<close>

theorem timeout_is_structured_reply:
  assumes \<open>\<forall>k. 0 \<le> k \<and> k \<le> maxRetries q \<longrightarrow>
             awaitReply N (requestCounter q + 1 + k) (if timeout q = 0 then 10 else timeout q) = None\<close>
  shows \<open>fst (sendWithRetry N address input args q) =
           [JString ''{"status": "error", "error": "timeout waiting for reply from QLab"}''] \<and>
         fst (sendWithRetry N address input args q) \<noteq> [] \<and>
         length (fst (sendWithRetry N address input args q)) = 1 \<and>
         ((\<forall>k. 0 \<le> k \<and> k \<le> maxRetries q \<longrightarrow> clientSend N (requestCounter q + 1 + k) = None) \<and>
          0 \<le> maxRetries q \<longrightarrow>
            awaits (events (snd (sendWithRetry N address input args q))) =
              awaits (events q) @
              replicate (nat (maxRetries q) + 1) (if timeout q = 0 then 10 else timeout q) \<and>
            sleeps (events (snd (sendWithRetry N address input args q))) =
              sleeps (events q) @ replicate (nat (maxRetries q)) 100) \<and>
         maxRetries NewWorkspace = 0 \<and> timeout NewWorkspace = 10\<close>
proof -
  from assms have none: "\<forall>k. 0 \<le> k \<and> k \<le> maxRetries q \<longrightarrow>
      awaitReply N (requestCounter q + 1 + (k - 0)) (if timeout q = 0 then 10 else timeout q) = None"
    by simp
  have reply: "fst (sendWithRetry N address input args q) = timeoutReply"
    unfolding sendWithRetry_def using none by (rule sendAttempts_timeout)
  have log: "(\<forall>k. 0 \<le> k \<and> k \<le> maxRetries q \<longrightarrow> clientSend N (requestCounter q + 1 + k) = None) \<and>
          0 \<le> maxRetries q \<longrightarrow>
            awaits (events (snd (sendWithRetry N address input args q))) =
              awaits (events q) @
              replicate (nat (maxRetries q) + 1) (if timeout q = 0 then 10 else timeout q) \<and>
            sleeps (events (snd (sendWithRetry N address input args q))) =
              sleeps (events q) @ replicate (nat (maxRetries q)) 100"
  proof (intro impI, elim conjE)
    assume "\<forall>k. 0 \<le> k \<and> k \<le> maxRetries q \<longrightarrow> clientSend N (requestCounter q + 1 + k) = None"
       and le: "0 \<le> maxRetries q"
    then have sends: "\<forall>k. 0 \<le> k \<and> k \<le> maxRetries q \<longrightarrow>
                        clientSend N (requestCounter q + 1 + (k - 0)) = None" by simp
    from sendAttempts_log [OF none sends le, of address input args]
    show "awaits (events (snd (sendWithRetry N address input args q))) =
              awaits (events q) @
              replicate (nat (maxRetries q) + 1) (if timeout q = 0 then 10 else timeout q) \<and>
            sleeps (events (snd (sendWithRetry N address input args q))) =
              sleeps (events q) @ replicate (nat (maxRetries q)) 100"
      by (simp add: sendWithRetry_def)
  qed
  from reply log show ?thesis by (simp add: timeoutReply_def NewWorkspace_def)
qed

theorem timeout_is_structured_reply_witness:
  \<open>fst (sendWithRetry slowNetwork ''/workspace/W/cueLists'' [] [] NewWorkspace) =
     [JString ''{"status": "error", "error": "timeout waiting for reply from QLab"}''] \<and>
   awaits (events (snd (sendWithRetry slowNetwork ''/workspace/W/cueLists'' [] [] NewWorkspace))) = [10] \<and>
   sleeps (events (snd (sendWithRetry slowNetwork ''/workspace/W/cueLists'' [] [] NewWorkspace))) = [] \<and>
   fst (sendWithRetry slowNetwork ''/workspace/W/cueLists'' [] []
          (NewWorkspace\<lparr>maxRetries := 2, timeout := 0\<rparr>)) =
     [JString ''{"status": "error", "error": "timeout waiting for reply from QLab"}''] \<and>
   awaits (events (snd (sendWithRetry slowNetwork ''/workspace/W/cueLists'' [] []
          (NewWorkspace\<lparr>maxRetries := 2, timeout := 0\<rparr>)))) = [10, 10, 10] \<and>
   sleeps (events (snd (sendWithRetry slowNetwork ''/workspace/W/cueLists'' [] []
          (NewWorkspace\<lparr>maxRetries := 2, timeout := 0\<rparr>)))) = [100, 100]\<close>
proof -
  have quiet: "\<forall>k. 0 \<le> k \<and> k \<le> maxRetries NewWorkspace \<longrightarrow>
      awaitReply slowNetwork (requestCounter NewWorkspace + 1 + k)
        (if timeout NewWorkspace = 0 then 10 else timeout NewWorkspace) = None"
    by (simp add: slowNetwork_def NewWorkspace_def)
  let ?q = "NewWorkspace\<lparr>maxRetries := 2, timeout := 0\<rparr>"
  have quiet2: "\<forall>k. 0 \<le> k \<and> k \<le> maxRetries ?q \<longrightarrow>
      awaitReply slowNetwork (requestCounter ?q + 1 + k) (if timeout ?q = 0 then 10 else timeout ?q) = None"
    by (simp add: slowNetwork_def NewWorkspace_def)
  have sends: "clientSend slowNetwork requestID = None" for requestID
    by (simp add: slowNetwork_def)
  have two: "replicate (nat 2) (100::int) = [100, 100]" "replicate (nat 2 + 1) (10::int) = [10, 10, 10]"
    by (simp_all add: numeral_2_eq_2 numeral_3_eq_3)
  from timeout_is_structured_reply [OF quiet, of "''/workspace/W/cueLists''" "[]" "[]"]
       timeout_is_structured_reply [OF quiet2, of "''/workspace/W/cueLists''" "[]" "[]"]
       two
  show ?thesis by (simp add: NewWorkspace_def sends)
qed

text \<open>
  On the same network a workspace that waits 30 seconds gets the reply, and so does the
  fourth request: the payload above is the answer to silence within the timeout only.
\<close>

lemma patient_workspace_gets_reply:
  \<open>fst (sendWithRetry slowNetwork ''/workspace/W/cueLists'' [] [] (NewWorkspace\<lparr>timeout := 30\<rparr>)) =
     [JString ''{"status": "ok"}''] \<and>
   fst (sendWithRetry slowNetwork ''/workspace/W/cueLists'' [] [] (NewWorkspace\<lparr>requestCounter := 3\<rparr>)) =
     [JString ''{"status": "ok"}'']\<close>
  by (simp add: sendWithRetry_def NewWorkspace_def slowNetwork_def emit_def sendAttempts.simps Let_def)


end
